theory Spec2Isabelle
  imports Main
begin

section \<open>Python values\<close>

text \<open>
  The script handles the parsed JSON bodies of the App Store Connect API with Python's
  dynamic operations. A parsed body is a \<open>json\<close> value; Python's \<open>None\<close> is \<open>JNull\<close>
  (what \<open>json.loads\<close> gives for \<open>null\<close>). A dict is an association list read with
  \<open>map_of\<close>; a parsed dict has distinct keys. Numbers are integers: no value the script
  reads is a float.
\<close>

datatype json = JNull | JBool bool | JNum int | JStr string | JArr "json list"
  | JObj "(string \<times> json) list"

text \<open>The exceptions the script can meet, and the three ways a call can end:
  a value, a raised exception, or \<open>sys.exit(n)\<close> (\<open>SystemExit\<close>, which no
  \<open>except Exception\<close> catches).\<close>

datatype exn = KeyError | IndexError | TypeError | AttributeError | ValueError | OSError
  | OverflowError | KeyboardInterrupt

datatype 'a outcome = Val 'a | Raise exn | Exit int

fun obind :: "'a outcome \<Rightarrow> ('a \<Rightarrow> 'b outcome) \<Rightarrow> 'b outcome" where
  "obind (Val x) f = f x"
| "obind (Raise x) f = Raise x"
| "obind (Exit n) f = Exit n"

text \<open>Truth value testing (\<open>if x\<close>, \<open>not x\<close>).\<close>

fun truthy :: "json \<Rightarrow> bool" where
  "truthy JNull = False"
| "truthy (JBool b) = b"
| "truthy (JNum n) = (n \<noteq> 0)"
| "truthy (JStr s) = (s \<noteq> [])"
| "truthy (JArr xs) = (xs \<noteq> [])"
| "truthy (JObj kvs) = (kvs \<noteq> [])"

text \<open>\<open>d.get(k, default)\<close>: only a dict has the method.\<close>

fun py_get :: "json \<Rightarrow> string \<Rightarrow> json \<Rightarrow> json outcome" where
  "py_get (JObj kvs) k d = Val (case map_of kvs k of Some v \<Rightarrow> v | None \<Rightarrow> d)"
| "py_get _ k d = Raise AttributeError"

text \<open>\<open>x[k]\<close> with a string key.\<close>

fun py_item :: "json \<Rightarrow> string \<Rightarrow> json outcome" where
  "py_item (JObj kvs) k = (case map_of kvs k of Some v \<Rightarrow> Val v | None \<Rightarrow> Raise KeyError)"
| "py_item _ k = Raise TypeError"

text \<open>\<open>x[0]\<close>: the first element of a list, the first character of a string; a dict
  of string keys has no key \<open>0\<close>.\<close>

fun py_item0 :: "json \<Rightarrow> json outcome" where
  "py_item0 (JArr xs) = (case xs of [] \<Rightarrow> Raise IndexError | x # _ \<Rightarrow> Val x)"
| "py_item0 (JStr s) = (case s of [] \<Rightarrow> Raise IndexError | c # _ \<Rightarrow> Val (JStr [c]))"
| "py_item0 (JObj kvs) = Raise KeyError"
| "py_item0 _ = Raise TypeError"

text \<open>\<open>for x in v\<close>: a list gives its elements, a string its characters, a dict its
  keys.\<close>

fun py_iter :: "json \<Rightarrow> json list outcome" where
  "py_iter (JArr xs) = Val xs"
| "py_iter (JStr s) = Val (map (\<lambda>c. JStr [c]) s)"
| "py_iter (JObj kvs) = Val (map (\<lambda>kv. JStr (fst kv)) kvs)"
| "py_iter _ = Raise TypeError"

text \<open>\<open>len(v)\<close>.\<close>

fun py_len :: "json \<Rightarrow> int outcome" where
  "py_len (JArr xs) = Val (int (length xs))"
| "py_len (JStr s) = Val (int (length s))"
| "py_len (JObj kvs) = Val (int (length kvs))"
| "py_len _ = Raise TypeError"

text \<open>\<open>v[:12]\<close>: strings and lists can be sliced; everything else raises (a dict
  raises too: TypeError before Python 3.12, KeyError from it on).\<close>

fun py_slice12 :: "json \<Rightarrow> json outcome" where
  "py_slice12 (JStr s) = Val (JStr (take 12 s))"
| "py_slice12 (JArr xs) = Val (JArr (take 12 xs))"
| "py_slice12 _ = Raise TypeError"

text \<open>\<open>x == y\<close>: booleans are the integers 0 and 1, lists compare elementwise, dicts
  by keys.\<close>

fun num_of :: "json \<Rightarrow> int option" where
  "num_of (JBool b) = Some (if b then 1 else 0)"
| "num_of (JNum n) = Some n"
| "num_of _ = None"

fun py_eq :: "json \<Rightarrow> json \<Rightarrow> bool" where
  "py_eq JNull y = (y = JNull)"
| "py_eq (JBool b) y = (num_of y = Some (if b then 1 else 0))"
| "py_eq (JNum n) y = (num_of y = Some n)"
| "py_eq (JStr s) y = (y = JStr s)"
| "py_eq (JArr xs) y = (case y of JArr ys \<Rightarrow> list_all2 py_eq xs ys | _ \<Rightarrow> False)"
| "py_eq (JObj kvs) y = (case y of JObj kws \<Rightarrow>
      set (map fst kvs) = set (map fst kws) \<and>
      list_all (\<lambda>(k, v). case map_of kws k of Some w \<Rightarrow> py_eq v w | None \<Rightarrow> False) kvs
    | _ \<Rightarrow> False)"

text \<open>\<open>s.split(sep)\<close> with a one-character separator: one more part than there are
  separators.\<close>

fun py_split :: "char \<Rightarrow> string \<Rightarrow> string list" where
  "py_split sep [] = [[]]"
| "py_split sep (c # cs) =
     (if c = sep then [] # py_split sep cs
      else (case py_split sep cs of p # ps \<Rightarrow> (c # p) # ps | [] \<Rightarrow> [[c]]))"

section \<open>The world: clock, network, output\<close>

text \<open>An f-string is its template and the values it interpolates, in order.\<close>

datatype fstr = F string "json list"

datatype http_method = GET | POST | PATCH

text \<open>What \<open>int(response.headers.get('Retry-After', 60))\<close> sees: no header, a text
  that \<open>int\<close> reads as a number, or a text on which \<open>int\<close> raises ValueError.\<close>

datatype retry_after = NoHeader | Seconds int | NotAnInt

text \<open>A response body: empty (\<open>response.content\<close> is falsy), a JSON text, or a non-empty
  text that is not JSON. \<open>response.json()\<close> parses the JSON text; on the other two it raises
  \<open>requests.exceptions.JSONDecodeError\<close>, which is a \<open>RequestException\<close>.\<close>

datatype body = NoContent | JsonBody json | NotJson

text \<open>What one call of \<open>requests.get/post/patch\<close> does: it returns a response, raises
  \<open>Timeout\<close>, raises another \<open>RequestException\<close>, or the user interrupts it.\<close>

datatype reply = Response int retry_after body | Timeout | ConnectionError | CtrlC

text \<open>The environment of a run: the reply to the n-th request the process sends and the
  seconds that request takes, and what \<open>find_bundle_id\<close> finds on disk.\<close>

datatype pbxproj = NoProjectFile | Unreadable | Parsed "string option"

record env =
  net :: "nat \<Rightarrow> reply"
  latency :: "nat \<Rightarrow> nat"
  project :: pbxproj

text \<open>The process state: requests sent so far, \<open>time.time()\<close> in seconds, the value
  \<open>time.time()\<close> had when the machine was started, the arguments of \<open>time.sleep\<close> and
  the lines printed.\<close>

record world =
  calls :: nat
  clock :: int
  machine_start :: int
  sent :: "(http_method \<times> fstr \<times> json) list"
  slept :: "int list"
  logged :: "fstr list"

definition log :: "fstr \<Rightarrow> world \<Rightarrow> world" where
  "log m w = w\<lparr>logged := logged w @ [m]\<rparr>"

text \<open>\<open>time.monotonic()\<close> in seconds: the time since the machine was started. It runs
  with \<open>time.time()\<close>.\<close>

definition monotonic :: "world \<Rightarrow> int" where
  "monotonic w = clock w - machine_start w"

text \<open>\<open>time.sleep(n)\<close> with an \<open>int\<close>, as CPython 3.11 does it on Linux. The length is
  first converted to nanoseconds in a signed 64-bit integer: OverflowError when it does not
  fit, which is below \<open>-9223372036\<close> and above \<open>9223372036\<close> seconds. A negative length
  is then refused with ValueError. The deadline is the monotonic clock plus the length,
  again in signed 64-bit nanoseconds, and the operating system refuses a deadline that
  does not fit (OSError, errno 22). The model is of a machine that has been up for less
  than \<open>4611686018\<close> seconds (146 years, half of what the 64 bits hold): a longer time
  counts as that.\<close>

definition sleep :: "int \<Rightarrow> world \<Rightarrow> unit outcome \<times> world" where
  "sleep n w =
     (if n < - 9223372036 \<or> 9223372036 < n then (Raise OverflowError, w)
      else if n < 0 then (Raise ValueError, w)
      else if 9223372036 < min (monotonic w) 4611686018 + n then (Raise OSError, w)
      else (Val (), w\<lparr>clock := clock w + n, slept := slept w @ [n]\<rparr>))"

text \<open>One HTTP call; \<open>requests.get\<close> is called without the body.\<close>

definition send :: "env \<Rightarrow> http_method \<Rightarrow> fstr \<Rightarrow> json \<Rightarrow> world \<Rightarrow> reply \<times> world" where
  "send e m ep d w =
     (net e (calls w),
      w\<lparr>calls := calls w + 1,
        clock := clock w + int (latency e (calls w)),
        sent := sent w @ [(m, ep, if m = GET then JNull else d)]\<rparr>)"

fun andThen :: "'a outcome \<times> world \<Rightarrow> ('a \<Rightarrow> world \<Rightarrow> 'b outcome \<times> world)
    \<Rightarrow> 'b outcome \<times> world" where
  "andThen (Val x, w) f = f x w"
| "andThen (Raise x, w) f = (Raise x, w)"
| "andThen (Exit n, w) f = (Exit n, w)"

section \<open>Credentials and the signed token\<close>

text \<open>The module-level configuration read from the environment variables, whether a path
  exists on disk, and whether reading the key and signing with it succeed.\<close>

record config =
  API_KEY_ID :: "string option"
  ISSUER_ID :: "string option"
  P8_KEY_PATH_var :: "string option"
  path_exists :: "string \<Rightarrow> bool"
  signing_ok :: bool

definition is_set :: "string option \<Rightarrow> bool" where
  "is_set v = (case v of None \<Rightarrow> False | Some s \<Rightarrow> s \<noteq> [])"

definition P8_KEY_PATH :: "config \<Rightarrow> string option" where
  "P8_KEY_PATH cfg =
     (case P8_KEY_PATH_var cfg of
        Some p \<Rightarrow> Some p
      | None \<Rightarrow>
          if is_set (API_KEY_ID cfg)
          then Some (''~/.appstoreconnect/private_keys/AuthKey_'' @ the (API_KEY_ID cfg) @ ''.p8'')
          else None)"

definition check_environment_variables :: "config \<Rightarrow> world \<Rightarrow> unit outcome \<times> world" where
  "check_environment_variables cfg w =
     (let missing = (if \<not> is_set (API_KEY_ID cfg) then [''APP_STORE_API_KEY_ID''] else [])
                  @ (if \<not> is_set (ISSUER_ID cfg) then [''APP_STORE_ISSUER_ID''] else [])
      in if missing \<noteq> [] then
           (Exit 1,
            (log (F ''You can find these in App Store Connect > Users and Access > Keys'' [])
            (log (F [] [])
            (log (F ''  export APP_STORE_P8_KEY_PATH=/path/to/AuthKey.p8  # optional'' [])
            (log (F ''  export APP_STORE_ISSUER_ID=your_issuer_id'' [])
            (log (F ''  export APP_STORE_API_KEY_ID=your_key_id'' [])
            (log (F ''Set them with:'' [])
            (log (F [] [])
            (fold (\<lambda>v. log (F ''  - {}'' [JStr v])) missing
            (log (F ''Missing required environment variables:'' []) w))))))))))
         else (Val (), w))"

text \<open>\<open>os.path.exists(None)\<close> raises TypeError; a missing key file and a failed signature
  both end the process with status 1.\<close>

definition generate_jwt_token :: "config \<Rightarrow> world \<Rightarrow> unit outcome \<times> world" where
  "generate_jwt_token cfg w =
     (case P8_KEY_PATH cfg of
        None \<Rightarrow> (Raise TypeError, w)
      | Some p \<Rightarrow>
          if \<not> path_exists cfg p then
            (Exit 1,
             log (F ''Set APP_STORE_P8_KEY_PATH or place the key at the default location'' [])
            (log (F ''P8 key file not found: {}'' [JStr p]) w))
          else if \<not> signing_ok cfg then
            (Exit 1, log (F ''Failed to generate JWT token: {}'' []) w)
          else (Val (), w))"

section \<open>The authenticated request helper\<close>

text \<open>\<open>error_data.get('errors', [{}])[0].get('detail', 'Unknown error')\<close>\<close>

definition error_detail :: "json \<Rightarrow> json outcome" where
  "error_detail error_data =
     obind (py_get error_data ''errors'' (JArr [JObj []])) (\<lambda>errors.
     obind (py_item0 errors) (\<lambda>first.
     py_get first ''detail'' (JStr ''Unknown error'')))"

text \<open>What one pass through the body of a loop decides: leave the function with an
  outcome, or go round again.\<close>

datatype ('r, 'c) flow = Return 'r | Continue 'c

text \<open>\<open>time.sleep(n); continue\<close>\<close>

definition sleep_continue :: "int \<Rightarrow> 'c \<Rightarrow> world \<Rightarrow> ('a outcome, 'c) flow \<times> world" where
  "sleep_continue n c w =
     (case sleep n w of
        (Val _, w1) \<Rightarrow> (Continue c, w1)
      | (Raise x, w1) \<Rightarrow> (Return (Raise x), w1)
      | (Exit k, w1) \<Rightarrow> (Return (Exit k), w1))"

text \<open>The two \<open>except\<close> branches have the same body but for the line they print.\<close>

definition on_request_exception ::
  "fstr \<Rightarrow> int \<Rightarrow> int \<Rightarrow> world \<Rightarrow> (json outcome, unit) flow \<times> world" where
  "on_request_exception line retries attempt w =
     (let w1 = log line w in
      if attempt < retries - 1 then
        sleep_continue (5 * (attempt + 1)) () w1
      else (Return (Val JNull), w1))"

text \<open>The body of \<open>for attempt in range(retries)\<close>.\<close>

definition attempt_request ::
  "env \<Rightarrow> http_method \<Rightarrow> fstr \<Rightarrow> json \<Rightarrow> int \<Rightarrow> int \<Rightarrow> world
    \<Rightarrow> (json outcome, unit) flow \<times> world" where
  "attempt_request e m ep d retries attempt w =
     (case send e m ep d w of
        (CtrlC, w1) \<Rightarrow> (Return (Raise KeyboardInterrupt), w1)
      | (Timeout, w1) \<Rightarrow> on_request_exception (F ''Request timed out'' []) retries attempt w1
      | (ConnectionError, w1) \<Rightarrow>
          on_request_exception (F ''Network error: {}'' []) retries attempt w1
      | (Response status_code hdr content, w1) \<Rightarrow>
          if status_code = 429 then
            (case hdr of
               NotAnInt \<Rightarrow> (Return (Raise ValueError), w1)
             | _ \<Rightarrow>
                 (let wait_time = (case hdr of Seconds n \<Rightarrow> n | _ \<Rightarrow> 60) in
                  sleep_continue wait_time ()
                    (log (F ''Rate limited. Waiting {}s...'' [JNum wait_time]) w1)))
          else if status_code \<ge> 400 then
            (case content of
               NotJson \<Rightarrow> on_request_exception (F ''Network error: {}'' []) retries attempt w1
             | _ \<Rightarrow>
                 (let error_data = (case content of JsonBody j \<Rightarrow> j | _ \<Rightarrow> JObj []) in
                  case error_detail error_data of
                    Raise x \<Rightarrow> (Return (Raise x), w1)
                  | Exit n \<Rightarrow> (Return (Exit n), w1)
                  | Val error_msg \<Rightarrow>
                      (let w2 = log (F ''API Error ({}): {}'' [JNum status_code, error_msg]) w1 in
                       if attempt < retries - 1 then
                         sleep_continue (5 * (attempt + 1)) ()
                           (log (F ''Retrying... (attempt {}/{})''
                                  [JNum (attempt + 2), JNum retries]) w2)
                       else (Return (Val JNull), w2))))
          else
            (case content of
               JsonBody j \<Rightarrow> (Return (Val j), w1)
             | _ \<Rightarrow> on_request_exception (F ''Network error: {}'' []) retries attempt w1))"

text \<open>The loop over the attempts; when \<open>range(retries)\<close> is used up the function falls
  to its last line, \<open>return None\<close>.\<close>

fun request_loop ::
  "env \<Rightarrow> http_method \<Rightarrow> fstr \<Rightarrow> json \<Rightarrow> int \<Rightarrow> int list \<Rightarrow> world \<Rightarrow> json outcome \<times> world" where
  "request_loop e m ep d retries [] w = (Val JNull, w)"
| "request_loop e m ep d retries (attempt # rest) w =
     (case attempt_request e m ep d retries attempt w of
        (Return r, w1) \<Rightarrow> (r, w1)
      | (Continue _, w1) \<Rightarrow> request_loop e m ep d retries rest w1)"

definition make_api_request ::
  "env \<Rightarrow> config \<Rightarrow> http_method \<Rightarrow> fstr \<Rightarrow> json \<Rightarrow> int \<Rightarrow> world \<Rightarrow> json outcome \<times> world" where
  "make_api_request e cfg m ep d retries w =
     andThen (generate_jwt_token cfg w)
       (\<lambda>_. request_loop e m ep d retries [0..retries - 1])"

section \<open>Bundle identifier and app lookup\<close>

text \<open>\<open>find_bundle_id\<close> globs the project directory, reads the first
  \<open>project.pbxproj\<close> and matches two regular expressions on it. The model takes the
  result of that search from the environment: no file, a file that cannot be read
  (\<open>open\<close> raises), or the text the expressions extract, if any.\<close>

definition find_bundle_id :: "env \<Rightarrow> world \<Rightarrow> json outcome \<times> world" where
  "find_bundle_id e w =
     (let w1 = log (F ''Detecting bundle ID from Xcode project...'' []) w in
      case project e of
        NoProjectFile \<Rightarrow> (Val JNull, log (F ''Could not find project.pbxproj file'' []) w1)
      | Unreadable \<Rightarrow> (Raise OSError, w1)
      | Parsed (Some bundle_id) \<Rightarrow>
          (Val (JStr bundle_id), log (F ''Found bundle ID: {}'' [JStr bundle_id]) w1)
      | Parsed None \<Rightarrow>
          (Val JNull, log (F ''Could not parse bundle ID from project file'' []) w1))"

text \<open>\<open>not response or not response.get('data')\<close>\<close>

definition no_data :: "json \<Rightarrow> bool outcome" where
  "no_data response =
     (if \<not> truthy response then Val True
      else obind (py_get response ''data'' JNull) (\<lambda>d. Val (\<not> truthy d)))"

definition find_app_by_bundle_id :: "env \<Rightarrow> config \<Rightarrow> json \<Rightarrow> world \<Rightarrow> json outcome \<times> world" where
  "find_app_by_bundle_id e cfg bundle_id w =
     andThen (make_api_request e cfg GET (F ''/apps?filter[bundleId]={}'' [bundle_id]) JNull 3
                (log (F ''Finding app with bundle ID: {}'' [bundle_id]) w)) (\<lambda>response w1.
     andThen (no_data response, w1) (\<lambda>missing w1.
       if missing then
         (Val JNull,
          log (F ''Make sure the app exists in App Store Connect'' [])
         (log (F ''App not found with bundle ID: {}'' [bundle_id]) w1))
       else
         andThen (obind (py_item response ''data'') (\<lambda>d.
                  obind (py_item0 d) (\<lambda>a. py_item a ''id'')), w1) (\<lambda>app_id w1.
         andThen (obind (py_item response ''data'') (\<lambda>d.
                  obind (py_item0 d) (\<lambda>a.
                  obind (py_item a ''attributes'') (\<lambda>at. py_item at ''name''))), w1)
           (\<lambda>app_name w1.
         andThen (py_slice12 app_id, w1) (\<lambda>short w1.
           (Val app_id, log (F ''Found app: {} (ID: {}...)'' [app_name, short]) w1))))))"

section \<open>Waiting for the build\<close>

text \<open>The search through the page of builds for the expected build number.\<close>

fun search_builds :: "json list \<Rightarrow> json \<Rightarrow> json outcome" where
  "search_builds [] expected_build_number = Val JNull"
| "search_builds (build # rest) expected_build_number =
     (case obind (py_item build ''attributes'') (\<lambda>a. py_get a ''version'' (JStr [])) of
        Val build_version \<Rightarrow>
          if py_eq build_version expected_build_number then Val build
          else search_builds rest expected_build_number
      | Raise x \<Rightarrow> Raise x
      | Exit n \<Rightarrow> Exit n)"

text \<open>The part of the loop body that runs once \<open>target_build\<close> is set (lines 309 to 336
  of the script).\<close>

definition check_build ::
  "json \<Rightarrow> int \<Rightarrow> int \<Rightarrow> json \<times> json \<Rightarrow> world \<Rightarrow> (json outcome, json \<times> json) flow \<times> world" where
  "check_build target_build max_wait_minutes start_time seen w =
     (case obind (py_item target_build ''id'') (\<lambda>build_id.
           obind (py_item target_build ''attributes'') (\<lambda>a.
           obind (py_get a ''processingState'' (JStr ''UNKNOWN'')) (\<lambda>processing_state.
           obind (py_item target_build ''attributes'') (\<lambda>a2.
           obind (py_get a2 ''version'' (JStr ''unknown'')) (\<lambda>vers.
           Val (build_id, processing_state, vers)))))) of
        Raise x \<Rightarrow> (Return (Raise x), w)
      | Exit n \<Rightarrow> (Return (Exit n), w)
      | Val (build_id, processing_state, vers) \<Rightarrow>
          (let changed = (\<not> py_eq processing_state (fst seen) \<or> \<not> py_eq vers (snd seen));
               w1 = (if changed
                     then log (F ''Build {} - State: {}'' [vers, processing_state]) w else w);
               seen1 = (if changed then (processing_state, vers) else seen)
           in if py_eq processing_state (JStr ''VALID'') then
                (Return (Val build_id), log (F ''Build {} is ready!'' [vers]) w1)
              else if py_eq processing_state (JStr ''INVALID'') then
                (Return (Val JNull),
                 log (F ''Check App Store Connect for details'' [])
                (log (F ''Build {} processing failed'' [vers]) w1))
              else
                (let elapsed = clock w1 - start_time in
                 if elapsed > max_wait_minutes * 60 then
                   (Return (Val JNull),
                    log (F ''  ./submit_to_app_store.py {}'' [vers])
                   (log (F ''Build {} is still processing. Run this script again later:'' [vers])
                   (log (F ''Timeout after {} minutes'' [JNum max_wait_minutes]) w1)))
                 else
                   sleep_continue
                     (if truthy target_build \<and> \<not> py_eq processing_state (JStr ''PROCESSING'')
                      then 30 else 5) seen1 w1)))"

text \<open>The body of \<open>while True\<close>: one poll of the recent builds.\<close>

definition poll_builds ::
  "env \<Rightarrow> config \<Rightarrow> json \<Rightarrow> json \<Rightarrow> int \<Rightarrow> int \<Rightarrow> json \<times> json \<Rightarrow> world
    \<Rightarrow> (json outcome, json \<times> json) flow \<times> world" where
  "poll_builds e cfg app_id expected_build_number max_wait_minutes start_time seen w =
     (case make_api_request e cfg GET
             (F ''/builds?filter[app]={}&sort=-uploadedDate&limit=5'' [app_id]) JNull 3 w of
        (Raise x, w1) \<Rightarrow> (Return (Raise x), w1)
      | (Exit n, w1) \<Rightarrow> (Return (Exit n), w1)
      | (Val response, w1) \<Rightarrow>
          (case no_data response of
             Raise x \<Rightarrow> (Return (Raise x), w1)
           | Exit n \<Rightarrow> (Return (Exit n), w1)
           | Val True \<Rightarrow>
               (Return (Val JNull),
                log (F ''Make sure you uploaded the IPA with xcrun altool first'' [])
               (log (F ''No builds found'' []) w1))
           | Val False \<Rightarrow>
               if truthy expected_build_number then
                 (case obind (py_item response ''data'') (\<lambda>d.
                       obind (py_iter d) (\<lambda>builds.
                       search_builds builds expected_build_number)) of
                    Raise x \<Rightarrow> (Return (Raise x), w1)
                  | Exit n \<Rightarrow> (Return (Exit n), w1)
                  | Val target_build \<Rightarrow>
                      if \<not> truthy target_build then
                        (let elapsed = clock w1 - start_time in
                         if elapsed > max_wait_minutes * 60 then
                           (Return (Val JNull),
                            log (F ''Check App Store Connect to verify the upload succeeded'' [])
                           (log (F ''Build {} never appeared in App Store Connect''
                                  [expected_build_number])
                           (log (F ''Timeout after {} minutes'' [JNum max_wait_minutes]) w1)))
                         else
                           sleep_continue 5 seen
                             (if elapsed mod 30 = 0 \<and> elapsed > 0
                              then log (F ''Still waiting for build {} to appear... ({}s elapsed)''
                                         [expected_build_number, JNum elapsed]) w1
                              else w1))
                      else check_build target_build max_wait_minutes start_time seen w1)
               else
                 (case obind (py_item response ''data'') py_item0 of
                    Raise x \<Rightarrow> (Return (Raise x), w1)
                  | Exit n \<Rightarrow> (Return (Exit n), w1)
                  | Val target_build \<Rightarrow>
                      check_build target_build max_wait_minutes start_time seen w1)))"

section \<open>The clock never runs backwards\<close>


lemma log_fields [simp]:
  "calls (log m w) = calls w" "clock (log m w) = clock w" "sent (log m w) = sent w"
  "slept (log m w) = slept w" "logged (log m w) = logged w @ [m]"
  "machine_start (log m w) = machine_start w"
  by (simp_all add: log_def)

lemma sleep_short:
  "0 \<le> n \<Longrightarrow> n \<le> 4611686018 \<Longrightarrow>
   sleep n w = (Val (), w\<lparr>clock := clock w + n, slept := slept w @ [n]\<rparr>)"
  by (simp add: sleep_def min_def)

lemma sleep_clock: "sleep n w = (r, w1) \<Longrightarrow> clock w \<le> clock w1"
  by (auto simp: sleep_def split: if_splits)

lemma sleep_continue_clock:
  "sleep_continue n c w = (r, w1) \<Longrightarrow> clock w \<le> clock w1"
  by (auto simp: sleep_continue_def sleep_def split: if_splits)

lemma sleep_continue_Continue:
  "sleep_continue n c w = (Continue c1, w1) \<Longrightarrow> 0 \<le> n \<and> clock w1 = clock w + n \<and> c1 = c"
  by (auto simp: sleep_continue_def sleep_def split: if_splits)

lemma send_clock: "send e m ep d w = (r, w1) \<Longrightarrow> clock w \<le> clock w1"
  by (auto simp: send_def)

lemma on_request_exception_clock:
  "on_request_exception line retries attempt w = (r, w1) \<Longrightarrow> clock w \<le> clock w1"
  by (auto simp: on_request_exception_def Let_def dest!: sleep_continue_clock split: if_splits)

lemma attempt_request_clock:
  "attempt_request e m ep d retries attempt w = (r, w1) \<Longrightarrow> clock w \<le> clock w1"
  unfolding attempt_request_def
  by (auto simp: Let_def send_def dest!: sleep_continue_clock on_request_exception_clock
      split: prod.splits reply.splits if_splits retry_after.splits body.splits outcome.splits)

lemma request_loop_clock:
  "request_loop e m ep d retries as w = (r, w1) \<Longrightarrow> clock w \<le> clock w1"
proof (induction as arbitrary: w)
  case Nil
  then show ?case by simp
next
  case (Cons a as)
  then show ?case
    by (auto split: prod.splits flow.splits dest!: attempt_request_clock) fastforce
qed

lemma generate_jwt_token_clock:
  "generate_jwt_token cfg w = (r, w1) \<Longrightarrow> clock w1 = clock w"
  by (auto simp: generate_jwt_token_def split: option.splits if_splits)

lemma make_api_request_clock:
  "make_api_request e cfg m ep d retries w = (r, w1) \<Longrightarrow> clock w \<le> clock w1"
  unfolding make_api_request_def
  by (cases "generate_jwt_token cfg w"; cases "fst (generate_jwt_token cfg w)")
     (auto dest!: generate_jwt_token_clock request_loop_clock)


lemma check_build_Continue:
  "check_build tb mx st seen w = (Continue c, w1) \<Longrightarrow>
     clock w + 5 \<le> clock w1 \<and> clock w - st \<le> mx * 60"
  unfolding check_build_def
  by (auto simp: Let_def dest!: sleep_continue_Continue
      split: outcome.splits prod.splits if_splits)

lemma poll_builds_Continue:
  assumes "poll_builds e cfg app ex mx st seen w = (Continue c, w1)"
  shows "clock w + 5 \<le> clock w1 \<and> clock w - st \<le> mx * 60"
proof -
  obtain r w0 where m: "make_api_request e cfg GET
      (F ''/builds?filter[app]={}&sort=-uploadedDate&limit=5'' [app]) JNull 3 w = (r, w0)"
    by (cases "make_api_request e cfg GET
      (F ''/builds?filter[app]={}&sort=-uploadedDate&limit=5'' [app]) JNull 3 w") auto
  have le: "clock w \<le> clock w0" using m by (rule make_api_request_clock)
  have "clock w0 + 5 \<le> clock w1 \<and> clock w0 - st \<le> mx * 60"
    using assms m unfolding poll_builds_def
    by (auto simp: Let_def dest!: sleep_continue_Continue check_build_Continue
        split: outcome.splits bool.splits if_splits)
  with le show ?thesis by linarith
qed

text \<open>The loop \<open>while True\<close>. It ends because every pass that goes round again sleeps at
  least five seconds and only goes round while the time limit has not passed.\<close>

function wait_loop ::
  "env \<Rightarrow> config \<Rightarrow> json \<Rightarrow> json \<Rightarrow> int \<Rightarrow> int \<Rightarrow> json \<times> json \<Rightarrow> world \<Rightarrow> json outcome \<times> world" where
  "wait_loop e cfg app_id expected_build_number max_wait_minutes start_time seen w =
     (case poll_builds e cfg app_id expected_build_number max_wait_minutes start_time seen w of
        (Return r, w1) \<Rightarrow> (r, w1)
      | (Continue seen1, w1) \<Rightarrow>
          wait_loop e cfg app_id expected_build_number max_wait_minutes start_time seen1 w1)"
  by pat_completeness auto
termination
proof (relation "measure (\<lambda>(e, cfg, app_id, ex, mx, st, seen, w). nat (st + mx * 60 + 1 - clock w))")
  show "wf (measure (\<lambda>(e, cfg, app_id, ex, mx, st, seen, w). nat (st + mx * 60 + 1 - clock w)))"
    by simp
next
  fix e cfg app_id ex mx st seen w x1 w1 seen1
  assume "(x1, w1) = poll_builds e cfg app_id ex mx st seen w" "x1 = Continue seen1"
  then have "poll_builds e cfg app_id ex mx st seen w = (Continue seen1, w1)" by simp
  from poll_builds_Continue [OF this]
  show "((e, cfg, app_id, ex, mx, st, seen1, w1), (e, cfg, app_id, ex, mx, st, seen, w))
     \<in> measure (\<lambda>(e, cfg, app_id, ex, mx, st, seen, w). nat (st + mx * 60 + 1 - clock w))"
    by simp
qed

declare wait_loop.simps [simp del]


definition wait_for_build_processing ::
  "env \<Rightarrow> config \<Rightarrow> json \<Rightarrow> json \<Rightarrow> int \<Rightarrow> bool \<Rightarrow> world \<Rightarrow> json outcome \<times> world" where
  "wait_for_build_processing e cfg app_id expected_build_number max_wait_minutes dry_run w =
     (let w1 = (if truthy expected_build_number
                then log (F ''Waiting for build {} to finish processing (max {} min)...''
                           [expected_build_number, JNum max_wait_minutes]) w
                else log (F ''Waiting for latest build to finish processing (max {} min)...''
                           [JNum max_wait_minutes]) w)
      in if dry_run then
           (Val (JStr ''dry-run-build-id''),
            log (F ''[DRY RUN] Skipping build processing wait'' []) w1)
         else
           wait_loop e cfg app_id expected_build_number max_wait_minutes (clock w1)
             (JNull, JNull) w1)"

section \<open>Version, build link, release notes, review\<close>

definition get_or_create_version ::
  "env \<Rightarrow> config \<Rightarrow> json \<Rightarrow> string \<Rightarrow> bool \<Rightarrow> world \<Rightarrow> json outcome \<times> world" where
  "get_or_create_version e cfg app_id version_string dry_run w =
     andThen (make_api_request e cfg GET
                (F ''/apps/{}/appStoreVersions?filter[platform]=IOS&filter[versionString]={}''
                   [app_id, JStr version_string]) JNull 3
                (log (F ''Looking for version {}...'' [JStr version_string]) w)) (\<lambda>response w1.
     if \<not> truthy response then (Val JNull, w1)
     else
       andThen (py_get response ''data'' JNull, w1) (\<lambda>found w1.
       if truthy found then
         andThen (obind (py_item response ''data'') (\<lambda>d.
                  obind (py_item0 d) (\<lambda>v. py_item v ''id'')), w1) (\<lambda>version_id w1.
         andThen (obind (py_item response ''data'') (\<lambda>d.
                  obind (py_item0 d) (\<lambda>v.
                  obind (py_item v ''attributes'') (\<lambda>a.
                  py_get a ''appStoreState'' (JStr ''UNKNOWN'')))), w1) (\<lambda>state w1.
           (let w2 = log (F ''Found existing version: {} (State: {})''
                           [JStr version_string, state]) w1
            in if list_ex (py_eq state)
                    [JStr ''WAITING_FOR_REVIEW'', JStr ''IN_REVIEW'',
                     JStr ''PENDING_DEVELOPER_RELEASE'', JStr ''READY_FOR_SALE'']
               then (Val JNull,
                     log (F ''Skipping submission (already submitted)'' [])
                    (log (F ''Version already in state: {}'' [state]) w2))
               else (Val version_id, w2))))
       else if dry_run then
         (Val (JStr ''dry-run-version-id''),
          log (F ''[DRY RUN] Would create new version {}'' [JStr version_string]) w1)
       else
         andThen (make_api_request e cfg POST (F ''/appStoreVersions'' [])
                    (JObj [(''data'', JObj
                       [(''type'', JStr ''appStoreVersions''),
                        (''attributes'', JObj [(''platform'', JStr ''IOS''),
                                               (''versionString'', JStr version_string)]),
                        (''relationships'', JObj [(''app'', JObj [(''data'',
                           JObj [(''type'', JStr ''apps''), (''id'', app_id)])])])])]) 3
                    (log (F ''Creating new version {}...'' [JStr version_string]) w1))
           (\<lambda>response w2.
         if \<not> truthy response then (Val JNull, w2)
         else
           andThen (obind (py_item response ''data'') (\<lambda>d. py_item d ''id''), w2)
             (\<lambda>version_id w2.
           (Val version_id, log (F ''Created version: {}'' [JStr version_string]) w2)))))"

definition link_build_to_version ::
  "env \<Rightarrow> config \<Rightarrow> json \<Rightarrow> json \<Rightarrow> bool \<Rightarrow> world \<Rightarrow> bool outcome \<times> world" where
  "link_build_to_version e cfg version_id build_id dry_run w =
     (if dry_run then (Val True, log (F ''[DRY RUN] Would link build to version'' []) w)
      else
        andThen (make_api_request e cfg PATCH (F ''/appStoreVersions/{}'' [version_id])
                   (JObj [(''data'', JObj
                      [(''type'', JStr ''appStoreVersions''),
                       (''id'', version_id),
                       (''relationships'', JObj [(''build'', JObj [(''data'',
                          JObj [(''type'', JStr ''builds''), (''id'', build_id)])])])])]) 3
                   (log (F ''Linking build to version...'' []) w)) (\<lambda>response w1.
        if \<not> truthy response then (Val False, w1)
        else (Val True, log (F ''Build linked to version'' []) w1)))"

text \<open>The body of \<open>for loc in localizations\<close>: whether this localization was updated.\<close>

definition update_localization ::
  "env \<Rightarrow> config \<Rightarrow> string \<Rightarrow> json \<Rightarrow> world \<Rightarrow> bool outcome \<times> world" where
  "update_localization e cfg release_notes loc w =
     andThen (obind (py_item loc ''attributes'') (\<lambda>a. py_item a ''locale''), w)
       (\<lambda>locale_code w.
     andThen (py_item loc ''id'', w) (\<lambda>loc_id w.
     andThen (make_api_request e cfg PATCH (F ''/appStoreVersionLocalizations/{}'' [loc_id])
                (JObj [(''data'', JObj
                   [(''type'', JStr ''appStoreVersionLocalizations''),
                    (''id'', loc_id),
                    (''attributes'', JObj [(''whatsNew'', JStr release_notes)])])]) 3 w)
       (\<lambda>response w.
     if truthy response
     then (Val True, log (F ''Added release notes for {}'' [locale_code]) w)
     else (Val False, log (F ''Failed to add release notes for {}'' [locale_code]) w))))"

fun update_localizations ::
  "env \<Rightarrow> config \<Rightarrow> string \<Rightarrow> json list \<Rightarrow> int \<Rightarrow> world \<Rightarrow> int outcome \<times> world" where
  "update_localizations e cfg release_notes [] success_count w = (Val success_count, w)"
| "update_localizations e cfg release_notes (loc # rest) success_count w =
     (case update_localization e cfg release_notes loc w of
        (Val updated, w1) \<Rightarrow>
          update_localizations e cfg release_notes rest
            (if updated then success_count + 1 else success_count) w1
      | (Raise x, w1) \<Rightarrow> (Raise x, w1)
      | (Exit n, w1) \<Rightarrow> (Exit n, w1))"

definition add_release_notes_all_locales ::
  "env \<Rightarrow> config \<Rightarrow> json \<Rightarrow> string \<Rightarrow> bool \<Rightarrow> world \<Rightarrow> bool outcome \<times> world" where
  "add_release_notes_all_locales e cfg version_id release_notes dry_run w =
     (if dry_run then
        (Val True,
         log (F (''[DRY RUN] Would add release notes to all locales: '' @ [CHR 0x22] @ ''{}''
                 @ [CHR 0x22]) [JStr release_notes]) w)
      else
        andThen (make_api_request e cfg GET
                   (F ''/appStoreVersions/{}/appStoreVersionLocalizations'' [version_id]) JNull 3
                   (log (F ''Adding release notes for all localizations...'' []) w))
          (\<lambda>response w1.
        if \<not> truthy response then (Val False, w1)
        else
          andThen (py_get response ''data'' (JArr []), w1) (\<lambda>localizations w1.
          if \<not> truthy localizations then
            (Val False, log (F ''No localizations found'' []) w1)
          else
            andThen (py_len localizations, w1) (\<lambda>total_count w1.
            andThen (py_iter localizations, w1) (\<lambda>locs w1.
            andThen (update_localizations e cfg release_notes locs 0 w1) (\<lambda>success_count w2.
              if success_count = total_count then
                (Val True,
                 log (F ''Release notes added to all {} localizations'' [JNum total_count]) w2)
              else if success_count > 0 then
                (Val True,
                 log (F ''Release notes added to {}/{} localizations''
                        [JNum success_count, JNum total_count]) w2)
              else
                (Val False,
                 log (F ''Failed to add release notes to any localization'' []) w2)))))))"

definition submit_for_review_legacy ::
  "env \<Rightarrow> config \<Rightarrow> json \<Rightarrow> world \<Rightarrow> bool outcome \<times> world" where
  "submit_for_review_legacy e cfg version_id w =
     andThen (make_api_request e cfg POST (F ''/appStoreVersionSubmissions'' [])
                (JObj [(''data'', JObj
                   [(''type'', JStr ''appStoreVersionSubmissions''),
                    (''relationships'', JObj [(''appStoreVersion'', JObj [(''data'',
                       JObj [(''type'', JStr ''appStoreVersions''), (''id'', version_id)])])])])])
                3 w) (\<lambda>response w1.
     if \<not> truthy response then
       (Val False,
        log (F ''Please check App Store Connect and submit manually'' [])
       (log (F ''Submission failed - may require manual action'' []) w1))
     else (Val True, log (F ''Submitted for review!'' []) w1))"

definition submit_for_review ::
  "env \<Rightarrow> config \<Rightarrow> json \<Rightarrow> json \<Rightarrow> bool \<Rightarrow> world \<Rightarrow> bool outcome \<times> world" where
  "submit_for_review e cfg version_id app_id dry_run w =
     (if dry_run then (Val True, log (F ''[DRY RUN] Would submit for review'' []) w)
      else
        andThen (make_api_request e cfg POST (F ''/reviewSubmissions'' [])
                   (JObj [(''data'', JObj
                      [(''type'', JStr ''reviewSubmissions''),
                       (''relationships'', JObj [(''app'', JObj [(''data'',
                          JObj [(''type'', JStr ''apps''), (''id'', app_id)])])])])]) 3
                   (log (F ''Creating review submission...'' [])
                   (log (F ''Submitting for review...'' []) w))) (\<lambda>response w1.
        if \<not> truthy response then
          submit_for_review_legacy e cfg version_id
            (log (F ''Trying legacy submission endpoint...'' []) w1)
        else
          andThen (obind (py_item response ''data'') (\<lambda>d. py_item d ''id''), w1)
            (\<lambda>submission_id w1.
          andThen (make_api_request e cfg POST (F ''/reviewSubmissionItems'' [])
                     (JObj [(''data'', JObj
                        [(''type'', JStr ''reviewSubmissionItems''),
                         (''relationships'', JObj
                            [(''reviewSubmission'', JObj [(''data'',
                                JObj [(''type'', JStr ''reviewSubmissions''),
                                      (''id'', submission_id)])]),
                             (''appStoreVersion'', JObj [(''data'',
                                JObj [(''type'', JStr ''appStoreVersions''),
                                      (''id'', version_id)])])])])]) 3
                     (log (F ''Adding version to submission...'' [])
                     (log (F ''Created review submission: {}'' [submission_id]) w1)))
            (\<lambda>response w2.
          if \<not> truthy response then
            (Val False,
             log (F ''Please submit manually via App Store Connect'' [])
            (log (F ''Failed to add version to submission'' []) w2))
          else
            andThen (make_api_request e cfg PATCH (F ''/reviewSubmissions/{}'' [submission_id])
                       (JObj [(''data'', JObj
                          [(''type'', JStr ''reviewSubmissions''),
                           (''id'', submission_id),
                           (''attributes'', JObj [(''submitted'', JBool True)])])]) 3
                       (log (F ''Confirming submission...'' []) w2)) (\<lambda>response w3.
            if \<not> truthy response then
              (Val False,
               log (F ''Please submit manually via App Store Connect'' [])
              (log (F ''Failed to confirm submission'' []) w3))
            else (Val True, log (F ''Submitted for review!'' []) w3))))))"

section \<open>The command line and the pipeline\<close>

text \<open>The parsed command line (\<open>argparse\<close> has already accepted it).\<close>

record args =
  arg_version :: string
  arg_dry_run :: bool
  arg_bundle_id :: "string option"

definition RELEASE_NOTES :: string where
  "RELEASE_NOTES = ''Bug fixes and improvements.''"

text \<open>Lines 608 to 616 of \<open>main\<close>: the version string is split at \<open>+\<close>, and the two
  names on the left of the assignment take exactly two parts; any other number of parts
  raises ValueError. The result is the version part and the build number (\<open>None\<close> or
  a string).\<close>

definition parse_version :: "string \<Rightarrow> (string \<times> string option) outcome" where
  "parse_version version_string =
     (if CHR ''+'' \<in> set version_string then
        (case py_split CHR ''+'' version_string of
           [version_part, build_number] \<Rightarrow> Val (version_part, Some build_number)
         | _ \<Rightarrow> Raise ValueError)
      else Val (version_string, None))"

definition opt_json :: "string option \<Rightarrow> json" where
  "opt_json v = (case v of None \<Rightarrow> JNull | Some s \<Rightarrow> JStr s)"

definition banner :: "world \<Rightarrow> world" where
  "banner w =
     log (F ''============================================================'' [])
    (log (F ''Built by Filip Kowalski | @filippkowalski | fkowalski.com'' [])
    (log (F ''App Store Connect Automation'' [])
    (log (F ''============================================================'' []) w)))"

definition summary :: "bool \<Rightarrow> bool \<Rightarrow> string \<Rightarrow> json \<Rightarrow> world \<Rightarrow> world" where
  "summary dry_run submission_success version_part build_number w =
     (let w1 = log (F ''============================================================'' [])
                 (log (F [] []) w);
          w2 = (if dry_run then log (F ''DRY RUN COMPLETE - No changes were made'' []) w1
                else if submission_success
                then log (F ''Success! App submitted for review'' []) w1
                else log (F ''Version created and configured - please submit via App Store Connect'' [])
                    (log (F ''Setup complete, but submission requires manual action'' []) w1))
      in log (F ''View status: https://appstoreconnect.apple.com'' [])
        (log (F ''Release notes: {}'' [JStr RELEASE_NOTES])
        (log (if truthy build_number
              then F ''Version: {} (Build {})'' [JStr version_part, build_number]
              else F ''Version: {}'' [JStr version_part])
        (log (F [] [])
        (log (F ''============================================================'' []) w2)))))"

text \<open>\<open>main\<close> in two parts. The first (lines 594 to 640) checks the credentials, reads
  the version string, finds the bundle identifier and the app and waits for the build; it
  gives the version part, the build number, the app identifier and the build identifier.\<close>

definition prepare ::
  "env \<Rightarrow> config \<Rightarrow> args \<Rightarrow> world \<Rightarrow> (string \<times> json \<times> json \<times> json) outcome \<times> world" where
  "prepare e cfg a w =
     andThen (check_environment_variables cfg (banner w)) (\<lambda>_ w.
     andThen (parse_version (arg_version a),
              if arg_dry_run a
              then log (F [] []) (log (F ''DRY RUN MODE - No changes will be made'' []) w)
              else w) (\<lambda>(version_part, build) w.
     let build_number = opt_json build;
         w = log (F [] [])
              (log (if build \<noteq> None
                    then F ''Parsed: Version {}, Build {}'' [JStr version_part, build_number]
                    else F ''Version {} (no specific build number)'' [JStr version_part]) w)
     in
     andThen (if is_set (arg_bundle_id a) then (Val (opt_json (arg_bundle_id a)), w)
              else find_bundle_id e w) (\<lambda>bundle_id w.
     if \<not> truthy bundle_id then
       (Exit 1, log (F ''Could not detect bundle ID. Use --bundle-id to specify manually'' []) w)
     else
     andThen (find_app_by_bundle_id e cfg bundle_id (log (F [] []) w)) (\<lambda>app_id w.
     if \<not> truthy app_id then (Exit 1, w)
     else
     andThen (wait_for_build_processing e cfg app_id build_number 60 (arg_dry_run a)
                (log (F [] []) w)) (\<lambda>build_id w.
     if \<not> truthy build_id then (Exit 1, w)
     else (Val (version_part, build_number, app_id, build_id), w))))))"

text \<open>The second part (lines 642 to 679): version, build link, release notes, review
  submission and the summary.\<close>

definition release ::
  "env \<Rightarrow> config \<Rightarrow> args \<Rightarrow> string \<Rightarrow> json \<Rightarrow> json \<Rightarrow> json \<Rightarrow> world \<Rightarrow> unit outcome \<times> world" where
  "release e cfg a version_part build_number app_id build_id w =
     andThen (get_or_create_version e cfg app_id version_part (arg_dry_run a)
                (log (F [] []) w)) (\<lambda>version_id w.
     if \<not> truthy version_id then
       (Exit 0, if \<not> arg_dry_run a
                then log (F ''Version may already be submitted'' []) w else w)
     else
     andThen (link_build_to_version e cfg version_id build_id (arg_dry_run a)
                (log (F [] []) w)) (\<lambda>linked w.
     if \<not> linked then (Exit 1, w)
     else
     andThen (add_release_notes_all_locales e cfg version_id RELEASE_NOTES (arg_dry_run a)
                (log (F [] []) w)) (\<lambda>noted w.
     if \<not> noted then (Exit 1, w)
     else
     andThen (submit_for_review e cfg version_id app_id (arg_dry_run a)
                (log (F [] []) w)) (\<lambda>submission_success w.
     (Val (), summary (arg_dry_run a) submission_success version_part build_number w)))))"

definition main :: "env \<Rightarrow> config \<Rightarrow> args \<Rightarrow> world \<Rightarrow> unit outcome \<times> world" where
  "main e cfg a w =
     andThen (prepare e cfg a w) (\<lambda>(version_part, build_number, app_id, build_id).
       release e cfg a version_part build_number app_id build_id)"

text \<open>The \<open>__main__\<close> guard: the exit status of the process. \<open>sys.exit(n)\<close> passes both
  handlers and ends the process with status \<open>n\<close>.\<close>

definition script :: "env \<Rightarrow> config \<Rightarrow> args \<Rightarrow> world \<Rightarrow> int \<times> world" where
  "script e cfg a w =
     (case main e cfg a w of
        (Val _, w1) \<Rightarrow> (0, w1)
      | (Exit n, w1) \<Rightarrow> (n, w1)
      | (Raise x, w1) \<Rightarrow>
          if x = KeyboardInterrupt
          then (130, log (F ''Interrupted by user'' []) (log (F [] []) w1))
          else (1, log (F ''Unexpected error: {}'' []) (log (F [] []) w1)))"

text \<open>A process that has just started.\<close>

definition boot :: world where
  "boot = \<lparr>calls = 0, clock = 0, machine_start = - 3600, sent = [], slept = [], logged = []\<rparr>"

section \<open>The version string\<close>

lemma py_split_not_Nil: "py_split sep s \<noteq> []"
  by (induction s) (auto split: list.splits)

lemma length_py_split: "length (py_split sep s) = Suc (count_list s sep)"
  by (induction s) (auto split: list.splits simp: py_split_not_Nil)

lemma py_split_none: "sep \<notin> set s \<Longrightarrow> py_split sep s = [s]"
  by (induction s) auto

lemma py_split_first: "sep \<notin> set v \<Longrightarrow> py_split sep (v @ sep # b) = v # py_split sep b"
  by (induction v) auto

text \<open>
  C3, as written, fails: the claim extends the split to strings with more than one
  \<open>+\<close>, and on such a string \<open>version_string.split('+')\<close> has three or more parts, so
  the assignment to two names raises ValueError.
\<close>

theorem two_plus_signs_raise: "parse_version ''1.13.0+30+1'' = Raise ValueError"
  by (simp add: parse_version_def)

text \<open>
  C3, amended: a version string without \<open>+\<close> is the version part and has no build
  number; a version string with exactly one \<open>+\<close> is split into the text before it (the
  version part) and the text after it (the build number); a version string with two or
  more \<open>+\<close> raises ValueError.
\<close>

theorem version_string_split:
  "(CHR ''+'' \<notin> set s \<longrightarrow> parse_version s = Val (s, None)) \<and>
   (\<forall>v b. s = v @ CHR ''+'' # b \<and> CHR ''+'' \<notin> set v \<and> CHR ''+'' \<notin> set b
      \<longrightarrow> parse_version s = Val (v, Some b)) \<and>
   (2 \<le> count_list s CHR ''+'' \<longrightarrow> parse_version s = Raise ValueError)"
proof (intro conjI impI allI)
  assume "CHR ''+'' \<notin> set s"
  then show "parse_version s = Val (s, None)" by (simp add: parse_version_def)
next
  fix v b
  assume h: "s = v @ CHR ''+'' # b \<and> CHR ''+'' \<notin> set v \<and> CHR ''+'' \<notin> set b"
  then have "py_split CHR ''+'' s = [v, b]"
    by (simp add: py_split_first py_split_none)
  moreover have "CHR ''+'' \<in> set s" using h by simp
  ultimately show "parse_version s = Val (v, Some b)" by (simp add: parse_version_def)
next
  assume h: "2 \<le> count_list s CHR ''+''"
  then have len: "3 \<le> length (py_split CHR ''+'' s)" by (simp add: length_py_split)
  have mem: "CHR ''+'' \<in> set s"
  proof (rule ccontr)
    assume "CHR ''+'' \<notin> set s"
    then have "count_list s CHR ''+'' = 0" by (simp add: count_list_0_iff)
    with h show False by simp
  qed
  from len obtain x y z r where "py_split CHR ''+'' s = x # y # z # r"
    by (auto simp: Suc_le_length_iff numeral_3_eq_3)
  with mem show "parse_version s = Raise ValueError" by (simp add: parse_version_def)
qed

theorem version_string_split_witness:
  "parse_version ''1.13.0'' = Val (''1.13.0'', None) \<and>
   parse_version ''1.13.0+30'' = Val (''1.13.0'', Some ''30'') \<and>
   parse_version ''1.13.0+30+2'' = Raise ValueError"
proof -
  have a: "parse_version ''1.13.0'' = Val (''1.13.0'', None)"
    using version_string_split [of "''1.13.0''"] by simp
  have b: "parse_version ''1.13.0+30'' = Val (''1.13.0'', Some ''30'')"
    using version_string_split [of "''1.13.0+30''", THEN conjunct2, THEN conjunct1,
        rule_format, of "''1.13.0''" "''30''"] by simp
  have c: "parse_version ''1.13.0+30+2'' = Raise ValueError"
    using version_string_split [of "''1.13.0+30+2''"] by simp
  from a b c show ?thesis by simp
qed

section \<open>Vocabulary of the statements\<close>

text \<open>A configuration with both credentials set and a key file that exists and signs.\<close>

definition good_config :: config where
  "good_config = \<lparr>API_KEY_ID = Some ''KEY'', ISSUER_ID = Some ''ISSUER'',
     P8_KEY_PATH_var = None, path_exists = (\<lambda>p. True), signing_ok = True\<rparr>"

text \<open>\<open>generate_jwt_token\<close> returns a token.\<close>

definition token_ok :: "config \<Rightarrow> bool" where
  "token_ok cfg = (case P8_KEY_PATH cfg of None \<Rightarrow> False
                   | Some p \<Rightarrow> path_exists cfg p \<and> signing_ok cfg)"

lemma token_ok_generate: "token_ok cfg \<Longrightarrow> generate_jwt_token cfg w = (Val (), w)"
  by (auto simp: token_ok_def generate_jwt_token_def split: option.splits)

lemma token_ok_good_config: "token_ok good_config"
  by (simp add: token_ok_def good_config_def P8_KEY_PATH_def is_set_def)

lemma make_api_request_token_ok:
  "token_ok cfg \<Longrightarrow>
   make_api_request e cfg m ep d retries w = request_loop e m ep d retries [0..retries - 1] w"
  by (simp add: make_api_request_def token_ok_generate)

text \<open>A server that answers 429 with \<open>Retry-After: 2\<close> three times and would answer
  200 from the fourth request on.\<close>

definition always_429 :: env where
  "always_429 = \<lparr>net = (\<lambda>n. if n < 3 then Response 429 (Seconds 2) NoContent
                            else Response 200 NoHeader (JsonBody (JObj [(''data'', JArr [])]))),
                  latency = (\<lambda>n. 0), project = NoProjectFile\<rparr>"

text \<open>A server that answers every request with status 500 and an empty body.\<close>

definition always_500 :: env where
  "always_500 = \<lparr>net = (\<lambda>n. Response 500 NoHeader NoContent),
                  latency = (\<lambda>n. 0), project = NoProjectFile\<rparr>"

section \<open>The request helper under rate limiting and failures\<close>

lemma upto3: "[0..(2::int)] = [0, 1, 2]"
  by (simp add: upto.simps)

lemmas run_simps = make_api_request_def generate_jwt_token_def P8_KEY_PATH_def is_set_def
  attempt_request_def send_def sleep_continue_def sleep_def log_def on_request_exception_def
  error_detail_def Let_def

text \<open>
  C1 fails on the code: the branch for a 429 ends in \<open>continue\<close> inside
  \<open>for attempt in range(retries)\<close>, so a rate-limited request uses up an attempt like any
  other. When the first three replies are 429 with \<open>Retry-After: 2\<close>, the helper sleeps
  two seconds after each of them, the last included, and returns \<open>None\<close> at time 6 after
  three requests: the retry that the last sleep waited for is never sent, although it would
  have been answered with 200. The branch for an error status sleeps only while an attempt
  is left: three replies 500 are followed by two sleeps, not three.
\<close>

theorem rate_limit_uses_up_the_attempts:
  "fst (make_api_request always_429 good_config GET (F ''/apps'' []) JNull 3 boot) = Val JNull \<and>
   calls (snd (make_api_request always_429 good_config GET (F ''/apps'' []) JNull 3 boot)) = 3 \<and>
   slept (snd (make_api_request always_429 good_config GET (F ''/apps'' []) JNull 3 boot)) = [2, 2, 2] \<and>
   clock (snd (make_api_request always_429 good_config GET (F ''/apps'' []) JNull 3 boot)) = 6 \<and>
   net always_429 3 = Response 200 NoHeader (JsonBody (JObj [(''data'', JArr [])])) \<and>
   slept (snd (make_api_request always_500 good_config GET (F ''/apps'' []) JNull 3 boot)) = [5, 10]"
  by (simp add: run_simps upto3 always_429_def always_500_def good_config_def boot_def
      monotonic_def)

text \<open>The sleep after a 429 is the only one whose length the server chooses, and the
  helper does not catch what \<open>int\<close> and \<open>time.sleep\<close> raise on it.\<close>

lemma sleep_lengths:
  "fst (sleep 60 boot) = Val ()"
  "fst (sleep (- 1) boot) = Raise ValueError"
  "fst (sleep (- 9223372037) boot) = Raise OverflowError"
  "fst (sleep 9223372037 boot) = Raise OverflowError"
  "fst (sleep 9223372036 boot) = Raise OSError"
  by (simp_all add: sleep_def monotonic_def boot_def)

definition rate_limiting :: "retry_after \<Rightarrow> env" where
  "rate_limiting hdr = \<lparr>net = (\<lambda>n. Response 429 hdr NoContent),
                       latency = (\<lambda>n. 0), project = NoProjectFile\<rparr>"

lemma rate_limiting_raises:
  "fst (make_api_request (rate_limiting NotAnInt) good_config GET (F ''/apps'' []) JNull 3 boot)
     = Raise ValueError"
  "fst (make_api_request (rate_limiting (Seconds (- 1))) good_config GET (F ''/apps'' []) JNull 3 boot)
     = Raise ValueError"
  "fst (make_api_request (rate_limiting (Seconds 10000000000)) good_config GET (F ''/apps'' [])
          JNull 3 boot) = Raise OverflowError"
  by (simp_all add: run_simps upto3 rate_limiting_def good_config_def boot_def)

text \<open>A reply that the helper counts as a failed attempt: a timeout, a network error, or a
  response with a status of 400 or more other than 429 whose body is empty, is not JSON,
  or is a JSON value from which the error message can be read.\<close>

fun failing :: "reply \<Rightarrow> bool" where
  "failing Timeout = True"
| "failing ConnectionError = True"
| "failing CtrlC = False"
| "failing (Response status_code hdr content) =
     (status_code \<ge> 400 \<and> status_code \<noteq> 429 \<and>
      (case content of
         JsonBody j \<Rightarrow> (case error_detail j of Val _ \<Rightarrow> True | _ \<Rightarrow> False)
       | _ \<Rightarrow> True))"

lemma error_detail_empty: "error_detail (JObj []) = Val (JStr ''Unknown error'')"
  by (simp add: error_detail_def)

lemma attempt_failing:
  assumes "failing (net e (calls w))" and "0 \<le> attempt" and "attempt \<le> 2"
  shows "\<exists>w1. attempt_request e m ep d retries attempt w =
            (if attempt < retries - 1 then Continue () else Return (Val JNull), w1) \<and>
          calls w1 = calls w + 1 \<and>
          slept w1 = slept w @ (if attempt < retries - 1 then [5 * (attempt + 1)] else []) \<and>
          sent w1 = sent w @ [(m, ep, if m = GET then JNull else d)]"
proof (cases "net e (calls w)")
  case (Response s h b)
  with assms have s: "s \<ge> 400" "s \<noteq> 429" by simp_all
  show ?thesis
  proof (cases b)
    case NoContent
    with Response s assms(2,3) show ?thesis
      by (simp add: attempt_request_def send_def sleep_continue_def sleep_short log_def Let_def
          error_detail_empty)
  next
    case (JsonBody j)
    with Response assms obtain msg where "error_detail j = Val msg"
      by (auto split: outcome.splits)
    with JsonBody Response s assms(2,3) show ?thesis
      by (simp add: attempt_request_def send_def sleep_continue_def sleep_short log_def Let_def)
  next
    case NotJson
    with Response s assms(2,3) show ?thesis
      by (simp add: attempt_request_def send_def sleep_continue_def sleep_short log_def Let_def
          on_request_exception_def)
  qed
next
  case Timeout
  with assms(2,3) show ?thesis
    by (simp add: attempt_request_def send_def sleep_continue_def sleep_short log_def Let_def
          on_request_exception_def)
next
  case ConnectionError
  with assms(2,3) show ?thesis
    by (simp add: attempt_request_def send_def sleep_continue_def sleep_short log_def Let_def
          on_request_exception_def)
next
  case CtrlC
  with assms show ?thesis by simp
qed

text \<open>
  C2, amended: when the three replies to a call with \<open>retries = 3\<close> are failures other
  than a 429 (a timeout, a network error, or a status of 400 or more with an empty body,
  a body that is not JSON, or a JSON body from which the error message can be read), the
  helper sends exactly three requests, sleeps 5 and then 10 seconds between them, and
  returns \<open>None\<close>: there is no fourth request and nothing is raised.
\<close>

theorem three_failures_give_up:
  assumes "token_ok cfg"
    and "failing (net e (calls w))"
    and "failing (net e (calls w + 1))"
    and "failing (net e (calls w + 2))"
  shows "fst (make_api_request e cfg m ep d 3 w) = Val JNull \<and>
         calls (snd (make_api_request e cfg m ep d 3 w)) = calls w + 3 \<and>
         slept (snd (make_api_request e cfg m ep d 3 w)) = slept w @ [5, 10]"
proof -
  from attempt_failing [OF assms(2), of 0 m ep d 3] obtain w1 where
    w1: "attempt_request e m ep d 3 0 w = (Continue (), w1)"
        "calls w1 = calls w + 1" "slept w1 = slept w @ [5]"
    by auto
  from assms(3) w1(2) have "failing (net e (calls w1))" by simp
  from attempt_failing [OF this, of 1 m ep d 3] obtain w2 where
    w2: "attempt_request e m ep d 3 1 w1 = (Continue (), w2)"
        "calls w2 = calls w1 + 1" "slept w2 = slept w1 @ [10]"
    by auto
  from assms(4) w1(2) w2(2) have "failing (net e (calls w2))" by (simp add: add.commute)
  from attempt_failing [OF this, of 2 m ep d 3] obtain w3 where
    w3: "attempt_request e m ep d 3 2 w2 = (Return (Val JNull), w3)"
        "calls w3 = calls w2 + 1" "slept w3 = slept w2"
    by auto
  have "make_api_request e cfg m ep d 3 w = (Val JNull, w3)"
    using assms(1) w1(1) w2(1) w3(1) by (simp add: make_api_request_token_ok upto3)
  with w1 w2 w3 show ?thesis by simp
qed

theorem three_failures_give_up_witness:
  "token_ok good_config \<and> failing (net always_500 0) \<and> failing (net always_500 1) \<and>
   failing (net always_500 2) \<and>
   fst (make_api_request always_500 good_config GET (F ''/apps'' []) JNull 3 boot) = Val JNull \<and>
   calls (snd (make_api_request always_500 good_config GET (F ''/apps'' []) JNull 3 boot)) = 3 \<and>
   slept (snd (make_api_request always_500 good_config GET (F ''/apps'' []) JNull 3 boot)) = [5, 10]"
proof -
  have f: "failing (net always_500 (calls boot))" "failing (net always_500 (calls boot + 1))"
    "failing (net always_500 (calls boot + 2))"
    by (simp_all add: always_500_def)
  from three_failures_give_up [OF token_ok_good_config f, of GET "F ''/apps'' []" JNull]
  show ?thesis
    by (simp add: token_ok_good_config always_500_def boot_def)
qed

definition no_retry_after :: env where
  "no_retry_after = \<lparr>net = (\<lambda>n. Response 429 NoHeader NoContent),
                      latency = (\<lambda>n. 0), project = NoProjectFile\<rparr>"

text \<open>
  C2, as written, fails: 429 is a status of 400 or more, and three 429 replies are not
  followed by sleeps of 5 and 10 seconds: the helper sleeps the Retry-After interval (here
  the default, 60 seconds) three times.
\<close>

theorem three_429_sleep_sixty:
  "fst (make_api_request no_retry_after good_config GET (F ''/apps'' []) JNull 3 boot) = Val JNull \<and>
   slept (snd (make_api_request no_retry_after good_config GET (F ''/apps'' []) JNull 3 boot))
     = [60, 60, 60]"
  by (simp add: run_simps upto3 no_retry_after_def good_config_def boot_def)

definition empty_error_list :: env where
  "empty_error_list = \<lparr>net = (\<lambda>n. Response 500 NoHeader (JsonBody (JObj [(''errors'', JArr [])]))),
                      latency = (\<lambda>n. 0), project = NoProjectFile\<rparr>"

text \<open>An error body whose \<open>errors\<close> list is empty is not covered by the amended claim:
  \<open>[0]\<close> raises IndexError, which the helper does not catch.\<close>

lemma empty_error_list_raises:
  "make_api_request empty_error_list good_config GET (F ''/apps'' []) JNull 3 boot =
     (Raise IndexError, boot\<lparr>calls := 1, sent := [(GET, F ''/apps'' [], JNull)]\<rparr>)"
  by (simp add: run_simps upto3 empty_error_list_def good_config_def boot_def)

section \<open>Runs in which the server answers at once\<close>

lemma wait_loop_Return:
  "poll_builds e cfg app ex mx st seen w = (Return r, w1) \<Longrightarrow>
   wait_loop e cfg app ex mx st seen w = (r, w1)"
  by (simp add: wait_loop.simps)

lemma wait_loop_Continue:
  "poll_builds e cfg app ex mx st seen w = (Continue seen1, w1) \<Longrightarrow>
   wait_loop e cfg app ex mx st seen w = wait_loop e cfg app ex mx st seen1 w1"
  by (simp add: wait_loop.simps)

lemma send_fields [simp]:
  "fst (send e m ep d w) = net e (calls w)"
  "calls (snd (send e m ep d w)) = Suc (calls w)"
  "clock (snd (send e m ep d w)) = clock w + int (latency e (calls w))"
  "sent (snd (send e m ep d w)) = sent w @ [(m, ep, if m = GET then JNull else d)]"
  "slept (snd (send e m ep d w)) = slept w"
  "logged (snd (send e m ep d w)) = logged w"
  by (simp_all add: send_def)

lemma make_api_request_ok:
  assumes "token_ok cfg" "net e (calls w) = Response s h (JsonBody j)" "s < 400"
  shows "make_api_request e cfg m ep d 3 w = (Val j, snd (send e m ep d w))"
  using assms
  by (simp add: make_api_request_token_ok upto3 attempt_request_def send_def)

text \<open>The page of one app, as the API lists it.\<close>

definition app_page :: "string \<Rightarrow> string \<Rightarrow> reply" where
  "app_page app_id app_name = Response 200 NoHeader (JsonBody (JObj [(''data'', JArr
     [JObj [(''id'', JStr app_id), (''attributes'', JObj [(''name'', JStr app_name)])]])]))"

text \<open>A page with one build.\<close>

definition build_page :: "string \<Rightarrow> string \<Rightarrow> string \<Rightarrow> reply" where
  "build_page build_id build_version processing_state =
     Response 200 NoHeader (JsonBody (JObj [(''data'', JArr
       [JObj [(''id'', JStr build_id),
              (''attributes'', JObj [(''version'', JStr build_version),
                                     (''processingState'', JStr processing_state)])]])]))"

lemma find_app_ok:
  assumes "token_ok cfg" "net e (calls w) = app_page app_id app_name" "app_id \<noteq> []"
  shows "find_app_by_bundle_id e cfg b w =
     (Val (JStr app_id),
      log (F ''Found app: {} (ID: {}...)'' [JStr app_name, JStr (take 12 app_id)])
        (snd (send e GET (F ''/apps?filter[bundleId]={}'' [b]) JNull
          (log (F ''Finding app with bundle ID: {}'' [b]) w))))"
proof -
  have "make_api_request e cfg GET (F ''/apps?filter[bundleId]={}'' [b]) JNull 3
          (log (F ''Finding app with bundle ID: {}'' [b]) w) =
        (Val (JObj [(''data'', JArr [JObj [(''id'', JStr app_id),
              (''attributes'', JObj [(''name'', JStr app_name)])]])]),
         snd (send e GET (F ''/apps?filter[bundleId]={}'' [b]) JNull
          (log (F ''Finding app with bundle ID: {}'' [b]) w)))"
    using assms(2) make_api_request_ok [OF assms(1), of e _ 200 NoHeader] by (simp add: app_page_def)
  then show ?thesis
    by (simp add: find_app_by_bundle_id_def no_data_def)
qed


lemma poll_valid:
  assumes "token_ok cfg" "net e (calls w) = build_page bid bv ''VALID''"
    and "ex = JStr bv \<or> \<not> truthy ex"
  shows "\<exists>w1. poll_builds e cfg app ex mx st seen w = (Return (Val (JStr bid)), w1) \<and>
     calls w1 = Suc (calls w) \<and>
     sent w1 = sent w @ [(GET, F ''/builds?filter[app]={}&sort=-uploadedDate&limit=5'' [app], JNull)] \<and>
     slept w1 = slept w"
proof -
  have m: "make_api_request e cfg GET
      (F ''/builds?filter[app]={}&sort=-uploadedDate&limit=5'' [app]) JNull 3 w =
     (Val (JObj [(''data'', JArr
       [JObj [(''id'', JStr bid),
              (''attributes'', JObj [(''version'', JStr bv),
                                     (''processingState'', JStr ''VALID'')])]])]),
      snd (send e GET (F ''/builds?filter[app]={}&sort=-uploadedDate&limit=5'' [app]) JNull w))"
    using assms(2) make_api_request_ok [OF assms(1), of e _ 200 NoHeader] by (simp add: build_page_def)
  from assms(3) show ?thesis
    by (auto simp: poll_builds_def m no_data_def check_build_def Let_def)
qed

lemma wait_valid:
  assumes "token_ok cfg" "net e (calls w) = build_page bid bv ''VALID''"
    and "ex = JStr bv \<or> \<not> truthy ex"
  shows "\<exists>w1. wait_for_build_processing e cfg app ex mx False w = (Val (JStr bid), w1) \<and>
     calls w1 = Suc (calls w) \<and>
     sent w1 = sent w @ [(GET, F ''/builds?filter[app]={}&sort=-uploadedDate&limit=5'' [app], JNull)] \<and>
     slept w1 = slept w"
proof -
  let ?w0 = "if truthy ex
         then log (F ''Waiting for build {} to finish processing (max {} min)...'' [ex, JNum mx]) w
         else log (F ''Waiting for latest build to finish processing (max {} min)...'' [JNum mx]) w"
  have c: "calls ?w0 = calls w" "sent ?w0 = sent w" "slept ?w0 = slept w" by simp_all
  from assms(2) c have "net e (calls ?w0) = build_page bid bv ''VALID''" by simp
  from poll_valid [OF assms(1) this assms(3), of app mx "clock ?w0" "(JNull, JNull)"]
  obtain w1 where w1: "poll_builds e cfg app ex mx (clock ?w0) (JNull, JNull) ?w0
       = (Return (Val (JStr bid)), w1)"
     "calls w1 = Suc (calls ?w0)"
     "sent w1 = sent ?w0 @ [(GET, F ''/builds?filter[app]={}&sort=-uploadedDate&limit=5'' [app], JNull)]"
     "slept w1 = slept ?w0"
    by blast
  have "wait_for_build_processing e cfg app ex mx False w = (Val (JStr bid), w1)"
    unfolding wait_for_build_processing_def Let_def
    using wait_loop_Return [OF w1(1)] by simp
  with w1 c show ?thesis by simp
qed

lemma three_failing_replies:
  assumes "token_ok cfg"
    and "failing (net e (calls w))"
    and "failing (net e (calls w + 1))"
    and "failing (net e (calls w + 2))"
  shows "\<exists>w3. make_api_request e cfg m ep d 3 w = (Val JNull, w3) \<and>
         calls w3 = calls w + 3 \<and>
         slept w3 = slept w @ [5, 10] \<and>
         sent w3 = sent w @ replicate 3 (m, ep, if m = GET then JNull else d)"
proof -
  from attempt_failing [OF assms(2), of 0 m ep d 3] obtain w1 where
    w1: "attempt_request e m ep d 3 0 w = (Continue (), w1)"
        "calls w1 = calls w + 1" "slept w1 = slept w @ [5]"
        "sent w1 = sent w @ [(m, ep, if m = GET then JNull else d)]"
    by auto
  from assms(3) w1(2) have "failing (net e (calls w1))" by simp
  from attempt_failing [OF this, of 1 m ep d 3] obtain w2 where
    w2: "attempt_request e m ep d 3 1 w1 = (Continue (), w2)"
        "calls w2 = calls w1 + 1" "slept w2 = slept w1 @ [10]"
        "sent w2 = sent w1 @ [(m, ep, if m = GET then JNull else d)]"
    by auto
  from assms(4) w1(2) w2(2) have "failing (net e (calls w2))" by (simp add: add.commute)
  from attempt_failing [OF this, of 2 m ep d 3] obtain w3 where
    w3: "attempt_request e m ep d 3 2 w2 = (Return (Val JNull), w3)"
        "calls w3 = calls w2 + 1" "slept w3 = slept w2"
        "sent w3 = sent w2 @ [(m, ep, if m = GET then JNull else d)]"
    by auto
  have "make_api_request e cfg m ep d 3 w = (Val JNull, w3)"
    using assms(1) w1(1) w2(1) w3(1) by (simp add: make_api_request_token_ok upto3)
  with w1 w2 w3 show ?thesis by (simp add: numeral_3_eq_3)
qed

lemma check_environment_ok:
  "is_set (API_KEY_ID cfg) \<Longrightarrow> is_set (ISSUER_ID cfg) \<Longrightarrow>
   check_environment_variables cfg w = (Val (), w)"
  by (simp add: check_environment_variables_def)

lemma banner_fields [simp]:
  "calls (banner w) = calls w" "clock (banner w) = clock w" "sent (banner w) = sent w"
  "slept (banner w) = slept w"
  by (simp_all add: banner_def)

lemma summary_fields [simp]:
  "calls (summary dr ok vp bn w) = calls w" "clock (summary dr ok vp bn w) = clock w"
  "sent (summary dr ok vp bn w) = sent w" "slept (summary dr ok vp bn w) = slept w"
  by (simp_all add: summary_def Let_def)

text \<open>The first part of \<open>main\<close> when the credentials are set, the bundle identifier is
  given on the command line, and the app and a valid build are found at once.\<close>

lemma prepare_ok:
  assumes "token_ok cfg" "is_set (API_KEY_ID cfg)" "is_set (ISSUER_ID cfg)"
    and "parse_version (arg_version a) = Val (vp, b)"
    and "arg_bundle_id a = Some bundle" "bundle \<noteq> []"
    and "net e (calls w) = app_page app_id app_name" "app_id \<noteq> []"
    and "\<not> arg_dry_run a"
    and "net e (Suc (calls w)) = build_page bid bv ''VALID''" "bid \<noteq> []"
    and "b = Some bv \<or> \<not> truthy (opt_json b)"
  shows "\<exists>w1. prepare e cfg a w = (Val (vp, opt_json b, JStr app_id, JStr bid), w1) \<and>
     calls w1 = calls w + 2 \<and>
     sent w1 = sent w @
       [(GET, F ''/apps?filter[bundleId]={}'' [JStr bundle], JNull),
        (GET, F ''/builds?filter[app]={}&sort=-uploadedDate&limit=5'' [JStr app_id], JNull)] \<and>
     slept w1 = slept w"
proof -
  define wa where "wa = log (F [] [])
              (log (if b \<noteq> None
                    then F ''Parsed: Version {}, Build {}'' [JStr vp, opt_json b]
                    else F ''Version {} (no specific build number)'' [JStr vp]) (banner w))"
  have wa: "calls wa = calls w" "sent wa = sent w" "slept wa = slept w"
    by (simp_all add: wa_def)
  have bun: "is_set (arg_bundle_id a)" "opt_json (arg_bundle_id a) = JStr bundle"
    using assms(5,6) by (simp_all add: is_set_def opt_json_def)
  define wb where "wb = log (F ''Found app: {} (ID: {}...)'' [JStr app_name, JStr (take 12 app_id)])
        (snd (send e GET (F ''/apps?filter[bundleId]={}'' [JStr bundle]) JNull
          (log (F ''Finding app with bundle ID: {}'' [JStr bundle]) (log (F [] []) wa))))"
  have app: "find_app_by_bundle_id e cfg (JStr bundle) (log (F [] []) wa) = (Val (JStr app_id), wb)"
    unfolding wb_def using assms(7) wa by (intro find_app_ok [OF assms(1) _ assms(8)]) simp
  have wb: "calls wb = Suc (calls w)" "slept wb = slept w"
    "sent wb = sent w @ [(GET, F ''/apps?filter[bundleId]={}'' [JStr bundle], JNull)]"
    by (simp_all add: wb_def wa)
  have "net e (calls (log (F [] []) wb)) = build_page bid bv ''VALID''"
    using assms(10) wb by simp
  moreover have "opt_json b = JStr bv \<or> \<not> truthy (opt_json b)"
    using assms(12) by (auto simp: opt_json_def)
  ultimately obtain wc where wc:
    "wait_for_build_processing e cfg (JStr app_id) (opt_json b) 60 False (log (F [] []) wb)
       = (Val (JStr bid), wc)"
    "calls wc = Suc (calls (log (F [] []) wb))"
    "sent wc = sent (log (F [] []) wb) @
       [(GET, F ''/builds?filter[app]={}&sort=-uploadedDate&limit=5'' [JStr app_id], JNull)]"
    "slept wc = slept (log (F [] []) wb)"
    using wait_valid [OF assms(1), of e "log (F [] []) wb" bid bv "opt_json b" "JStr app_id" 60]
    by blast
  have "prepare e cfg a w = (Val (vp, opt_json b, JStr app_id, JStr bid), wc)"
    unfolding prepare_def
    using assms(2-4,6,8,9,11) app wc(1) bun
    by (simp add: check_environment_ok Let_def wa_def [symmetric] split del: if_split del: not_None_eq)
  with wc wb show ?thesis by simp
qed


section \<open>Read-only stages send no mutating request\<close>

text \<open>The mutating requests (POST and PATCH) sent so far.\<close>

definition mutations :: "world \<Rightarrow> (http_method \<times> fstr \<times> json) list" where
  "mutations w = filter (\<lambda>r. fst r \<noteq> GET) (sent w)"

lemma mutations_log [simp]: "mutations (log m w) = mutations w"
  by (simp add: mutations_def)

lemma mutations_banner [simp]: "mutations (banner w) = mutations w"
  by (simp add: mutations_def)

lemma mutations_summary [simp]: "mutations (summary dr ok vp bn w) = mutations w"
  by (simp add: mutations_def)

lemma mutations_send_GET [simp]: "mutations (snd (send e GET ep d w)) = mutations w"
  by (simp add: mutations_def)

lemma mutations_sleep_continue:
  "sleep_continue n c w = (r, w1) \<Longrightarrow> mutations w1 = mutations w"
  by (auto simp: sleep_continue_def sleep_def mutations_def split: if_splits)

lemma mutations_on_request_exception:
  "on_request_exception line retries attempt w = (r, w1) \<Longrightarrow> mutations w1 = mutations w"
  by (auto simp: on_request_exception_def Let_def dest!: mutations_sleep_continue
      split: if_splits)

lemma mutations_attempt_GET:
  "attempt_request e GET ep d retries attempt w = (r, w1) \<Longrightarrow> mutations w1 = mutations w"
proof -
  assume a: "attempt_request e GET ep d retries attempt w = (r, w1)"
  obtain rep w0 where s: "send e GET ep d w = (rep, w0)" by (cases "send e GET ep d w") auto
  then have m0: "mutations w0 = mutations w"
    using mutations_send_GET [of e ep d w] by simp
  from a s have "mutations w1 = mutations w0"
    unfolding attempt_request_def
    by (auto simp: Let_def dest!: mutations_sleep_continue mutations_on_request_exception
        split: reply.splits if_splits retry_after.splits body.splits outcome.splits)
  with m0 show ?thesis by simp
qed

lemma mutations_request_loop_GET:
  "request_loop e GET ep d retries as w = (r, w1) \<Longrightarrow> mutations w1 = mutations w"
proof (induction as arbitrary: w)
  case Nil
  then show ?case by simp
next
  case (Cons a as)
  obtain f w0 where at: "attempt_request e GET ep d retries a w = (f, w0)"
    by (cases "attempt_request e GET ep d retries a w") auto
  from mutations_attempt_GET [OF at] have m0: "mutations w0 = mutations w" .
  show ?case
  proof (cases f)
    case (Return x)
    with Cons.prems at m0 show ?thesis by simp
  next
    case (Continue u)
    with Cons.prems at have "request_loop e GET ep d retries as w0 = (r, w1)" by simp
    from Cons.IH [OF this] m0 show ?thesis by simp
  qed
qed

lemma mutations_generate_jwt_token:
  "generate_jwt_token cfg w = (r, w1) \<Longrightarrow> mutations w1 = mutations w"
  by (auto simp: generate_jwt_token_def split: option.splits if_splits)

lemma mutations_make_api_request_GET:
  "make_api_request e cfg GET ep d retries w = (r, w1) \<Longrightarrow> mutations w1 = mutations w"
  unfolding make_api_request_def
  by (cases "generate_jwt_token cfg w"; cases "fst (generate_jwt_token cfg w)")
     (auto dest!: mutations_generate_jwt_token mutations_request_loop_GET)

lemma mutations_request_GET [simp]:
  "mutations (snd (make_api_request e cfg GET ep d retries w)) = mutations w"
  using mutations_make_api_request_GET [of e cfg ep d retries w] by (metis prod.collapse)

text \<open>A chain of steps sends no mutating request when none of its steps does.\<close>

lemma andThen_mut:
  assumes "mutations (snd m) = M"
    and "\<And>x w1. mutations w1 = M \<Longrightarrow> mutations (snd (f x w1)) = M"
  shows "mutations (snd (andThen m f)) = M"
  using assms by (cases m; cases "fst m") auto

lemma if_mut:
  "(c \<Longrightarrow> mutations (snd x) = M) \<Longrightarrow> (\<not> c \<Longrightarrow> mutations (snd y) = M)
   \<Longrightarrow> mutations (snd (if c then x else y)) = M"
  by simp

lemma mutations_find_app [simp]:
  "mutations (snd (find_app_by_bundle_id e cfg b w)) = mutations w"
  unfolding find_app_by_bundle_id_def
  by (intro andThen_mut if_mut) simp_all

lemma mutations_find_bundle_id [simp]:
  "mutations (snd (find_bundle_id e w)) = mutations w"
  by (simp add: find_bundle_id_def Let_def split: pbxproj.splits option.splits)

lemma mutations_check_build:
  "check_build tb mx st seen w = (r, w1) \<Longrightarrow> mutations w1 = mutations w"
  unfolding check_build_def
  by (auto simp: Let_def dest!: mutations_sleep_continue
      split: outcome.splits prod.splits if_splits)

lemma mutations_poll_builds:
  assumes "poll_builds e cfg app ex mx st seen w = (r, w1)"
  shows "mutations w1 = mutations w"
proof -
  obtain x w0 where m: "make_api_request e cfg GET
      (F ''/builds?filter[app]={}&sort=-uploadedDate&limit=5'' [app]) JNull 3 w = (x, w0)"
    by (cases "make_api_request e cfg GET
      (F ''/builds?filter[app]={}&sort=-uploadedDate&limit=5'' [app]) JNull 3 w") auto
  have m0: "mutations w0 = mutations w" using m by (rule mutations_make_api_request_GET)
  have "mutations w1 = mutations w0"
    using assms m unfolding poll_builds_def
    by (auto simp: Let_def dest!: mutations_sleep_continue mutations_check_build
        split: outcome.splits bool.splits if_splits)
  with m0 show ?thesis by simp
qed

lemma mutations_wait_loop:
  "mutations (snd (wait_loop e cfg app ex mx st seen w)) = mutations w"
proof (induction e cfg app ex mx st seen w rule: wait_loop.induct)
  case (1 e cfg app ex mx st seen w)
  obtain f w1 where p: "poll_builds e cfg app ex mx st seen w = (f, w1)"
    by (cases "poll_builds e cfg app ex mx st seen w") auto
  from mutations_poll_builds [OF p] have m1: "mutations w1 = mutations w" .
  show ?case
  proof (cases f)
    case (Return r)
    with p m1 show ?thesis by (simp add: wait_loop_Return)
  next
    case (Continue seen1)
    with p have "wait_loop e cfg app ex mx st seen w = wait_loop e cfg app ex mx st seen1 w1"
      by (simp add: wait_loop_Continue)
    moreover have "mutations (snd (wait_loop e cfg app ex mx st seen1 w1)) = mutations w1"
      using "1.IH" [OF p [symmetric] Continue] .
    ultimately show ?thesis using m1 by simp
  qed
qed

lemma mutations_wait_for_build [simp]:
  "mutations (snd (wait_for_build_processing e cfg app ex mx dr w)) = mutations w"
  by (simp add: wait_for_build_processing_def Let_def mutations_wait_loop)

lemma mutations_check_environment [simp]:
  "mutations (snd (check_environment_variables cfg w)) = mutations w"
proof -
  have "mutations (fold (\<lambda>v. log (F ''  - {}'' [JStr v])) ms w1) = mutations w1" for ms w1
    by (induction ms arbitrary: w1) simp_all
  then show ?thesis by (simp add: check_environment_variables_def Let_def)
qed

lemma mutations_prepare [simp]:
  "mutations (snd (prepare e cfg a w)) = mutations w"
proof -
  have rest: "mutations (snd (andThen
         (if is_set (arg_bundle_id a) then (Val (opt_json (arg_bundle_id a)), w1)
          else find_bundle_id e w1) (\<lambda>bundle_id w.
     if \<not> truthy bundle_id then
       (Exit 1, log (F ''Could not detect bundle ID. Use --bundle-id to specify manually'' []) w)
     else
     andThen (find_app_by_bundle_id e cfg bundle_id (log (F [] []) w)) (\<lambda>app_id w.
     if \<not> truthy app_id then (Exit 1, w)
     else
     andThen (wait_for_build_processing e cfg app_id bn 60 (arg_dry_run a)
                (log (F [] []) w)) (\<lambda>build_id w.
     if \<not> truthy build_id then (Exit 1, w)
     else (Val (vp, bn, app_id, build_id), w)))))) = mutations w1" for w1 vp bn
    by (intro andThen_mut if_mut) simp_all
  show ?thesis
    unfolding prepare_def Let_def
    apply (rule andThen_mut, simp)
    apply (rule andThen_mut, simp)
    apply (simp only: split_paired_all prod.case)
    apply (simp only: rest)
    apply simp
    done
qed

section \<open>A version that is already submitted\<close>

text \<open>The identifier and the state of the first version record of a lookup response, when
  the response lists one.\<close>

definition first_version :: "json \<Rightarrow> (json \<times> json) option" where
  "first_version response =
     (case py_get response ''data'' JNull of
        Val (JArr (v # others)) \<Rightarrow>
          (case (py_item v ''id'',
                 obind (py_item v ''attributes'') (\<lambda>a.
                   py_get a ''appStoreState'' (JStr ''UNKNOWN''))) of
             (Val version_id, Val state) \<Rightarrow> Some (version_id, state)
           | _ \<Rightarrow> None)
      | _ \<Rightarrow> None)"

definition submitted_states :: "string list" where
  "submitted_states =
     [''WAITING_FOR_REVIEW'', ''IN_REVIEW'', ''PENDING_DEVELOPER_RELEASE'', ''READY_FOR_SALE'']"

lemma first_version_shape:
  assumes "first_version response = Some (version_id, state)"
  shows "truthy response \<and>
     (\<exists>v others. py_get response ''data'' JNull = Val (JArr (v # others)) \<and>
        py_item response ''data'' = Val (JArr (v # others)) \<and>
        py_item v ''id'' = Val version_id \<and>
        obind (py_item v ''attributes'') (\<lambda>a.
                   py_get a ''appStoreState'' (JStr ''UNKNOWN'')) = Val state)"
proof (cases response)
  case (JObj kvs)
  with assms show ?thesis
    by (auto simp: first_version_def split: option.splits json.splits list.splits outcome.splits)
qed (use assms in \<open>simp_all add: first_version_def\<close>)

lemma versions_existing:
  assumes "make_api_request e cfg GET
             (F ''/apps/{}/appStoreVersions?filter[platform]=IOS&filter[versionString]={}''
                [app_id, JStr vp]) JNull 3
             (log (F ''Looking for version {}...'' [JStr vp]) w) = (Val response, w2)"
    and "first_version response = Some (version_id, state)"
  shows "get_or_create_version e cfg app_id vp dr w =
     (if list_ex (py_eq state) (map JStr submitted_states)
      then (Val JNull,
            log (F ''Skipping submission (already submitted)'' [])
           (log (F ''Version already in state: {}'' [state])
           (log (F ''Found existing version: {} (State: {})'' [JStr vp, state]) w2)))
      else (Val version_id,
            log (F ''Found existing version: {} (State: {})'' [JStr vp, state]) w2))"
proof -
  from first_version_shape [OF assms(2)] obtain v others where
    s: "truthy response" "py_get response ''data'' JNull = Val (JArr (v # others))"
       "py_item response ''data'' = Val (JArr (v # others))"
       "py_item v ''id'' = Val version_id"
       "obind (py_item v ''attributes'') (\<lambda>a.
                   py_get a ''appStoreState'' (JStr ''UNKNOWN'')) = Val state"
    by blast
  show ?thesis
    unfolding get_or_create_version_def
    by (simp add: assms(1) s Let_def submitted_states_def split del: if_split)
qed

lemma release_nothing_to_do:
  assumes "get_or_create_version e cfg app_id vp (arg_dry_run a) (log (F [] []) w) = (Val v, w1)"
    and "\<not> truthy v"
  shows "release e cfg a vp bn app_id build_id w =
     (Exit 0, if \<not> arg_dry_run a
              then log (F ''Version may already be submitted'' []) w1 else w1)"
  using assms by (simp add: release_def)

lemma script_of_main:
  "main e cfg a w = (Exit n, w1) \<Longrightarrow> script e cfg a w = (n, w1)"
  "main e cfg a w = (Val u, w1) \<Longrightarrow> script e cfg a w = (0, w1)"
  by (simp_all add: script_def)

lemma main_of_prepare:
  "prepare e cfg a w = (Val (vp, bn, app_id, build_id), w1) \<Longrightarrow>
   main e cfg a w = release e cfg a vp bn app_id build_id w1"
  by (simp add: main_def)

text \<open>
  C4: when the run reaches the version stage and the lookup finds an existing version
  whose state is WAITING_FOR_REVIEW, IN_REVIEW, PENDING_DEVELOPER_RELEASE or
  READY_FOR_SALE, \<open>get_or_create_version\<close> returns \<open>None\<close>, neither it nor the run as a
  whole sends a POST or PATCH (no version record is created), and the process exits with
  status 0.
\<close>

theorem already_submitted_exits_0:
  assumes "prepare e cfg a w = (Val (vp, bn, app_id, build_id), w1)"
    and "make_api_request e cfg GET
             (F ''/apps/{}/appStoreVersions?filter[platform]=IOS&filter[versionString]={}''
                [app_id, JStr vp]) JNull 3
             (log (F ''Looking for version {}...'' [JStr vp]) (log (F [] []) w1))
           = (Val response, w2)"
    and "first_version response = Some (version_id, JStr state)"
    and "state \<in> set submitted_states"
  shows "fst (get_or_create_version e cfg app_id vp (arg_dry_run a) (log (F [] []) w1))
           = Val JNull \<and>
         mutations (snd (get_or_create_version e cfg app_id vp (arg_dry_run a)
                           (log (F [] []) w1))) = mutations w \<and>
         fst (script e cfg a w) = 0 \<and>
         mutations (snd (script e cfg a w)) = mutations w"
proof -
  have st: "list_ex (py_eq (JStr state)) (map JStr submitted_states)"
    using assms(4) by (auto simp: submitted_states_def)
  have m1: "mutations w1 = mutations w"
    using mutations_prepare [of e cfg a w] assms(1) by simp
  have m2: "mutations w2 = mutations w1"
    using mutations_make_api_request_GET [OF assms(2)] by simp
  let ?w3 = "log (F ''Skipping submission (already submitted)'' [])
           (log (F ''Version already in state: {}'' [JStr state])
           (log (F ''Found existing version: {} (State: {})'' [JStr vp, JStr state]) w2))"
  have g: "get_or_create_version e cfg app_id vp (arg_dry_run a) (log (F [] []) w1)
             = (Val JNull, ?w3)"
    using versions_existing [OF assms(2,3)] st by simp
  have "release e cfg a vp bn app_id build_id w1 =
     (Exit 0, if \<not> arg_dry_run a
              then log (F ''Version may already be submitted'' []) ?w3 else ?w3)"
    using release_nothing_to_do [OF g, of bn build_id] by simp
  then have "script e cfg a w =
     (0, if \<not> arg_dry_run a
              then log (F ''Version may already be submitted'' []) ?w3 else ?w3)"
    using main_of_prepare [OF assms(1)] script_of_main(1) [of e cfg a w 0] by simp
  with g m1 m2 show ?thesis by simp
qed

text \<open>A page with one version record.\<close>

definition version_page :: "string \<Rightarrow> string \<Rightarrow> reply" where
  "version_page version_id state =
     Response 200 NoHeader (JsonBody (JObj [(''data'', JArr
       [JObj [(''id'', JStr version_id),
              (''attributes'', JObj [(''appStoreState'', JStr state)])]])]))"

text \<open>A page that lists nothing.\<close>

definition empty_page :: reply where
  "empty_page = Response 200 NoHeader (JsonBody (JObj [(''data'', JArr [])]))"

definition server_error :: reply where
  "server_error = Response 500 NoHeader NoContent"

text \<open>The command line \<open>1.13.0+30 --bundle-id com.example.app\<close>.\<close>

definition live_args :: args where
  "live_args = \<lparr>arg_version = ''1.13.0+30'', arg_dry_run = False,
                 arg_bundle_id = Some ''com.example.app''\<rparr>"

text \<open>The app and build 30 are there, and version 1.13.0 is already in review.\<close>

definition in_review :: env where
  "in_review = \<lparr>net = (\<lambda>n. if n = 0 then app_page ''6450000000'' ''Demo''
                           else if n = 1 then build_page ''build-1'' ''30'' ''VALID''
                           else if n = 2 then version_page ''version-1'' ''IN_REVIEW''
                           else server_error),
                 latency = (\<lambda>n. 0), project = NoProjectFile\<rparr>"

lemma good_config_set: "is_set (API_KEY_ID good_config)" "is_set (ISSUER_ID good_config)"
  by (simp_all add: good_config_def is_set_def)

lemma parse_live: "parse_version (arg_version live_args) = Val (''1.13.0'', Some ''30'')"
  by (simp add: parse_version_def live_args_def)

lemma prepare_live:
  assumes "net e 0 = app_page ''6450000000'' ''Demo''"
    and "net e 1 = build_page ''build-1'' ''30'' ''VALID''"
  shows "\<exists>w1. prepare e good_config live_args boot =
       (Val (''1.13.0'', JStr ''30'', JStr ''6450000000'', JStr ''build-1''), w1) \<and>
     calls w1 = 2 \<and> mutations w1 = [] \<and> slept w1 = []"
proof -
  have "\<exists>w1. prepare e good_config live_args boot =
       (Val (''1.13.0'', opt_json (Some ''30''), JStr ''6450000000'', JStr ''build-1''), w1) \<and>
     calls w1 = calls boot + 2 \<and>
     sent w1 = sent boot @
       [(GET, F ''/apps?filter[bundleId]={}'' [JStr ''com.example.app''], JNull),
        (GET, F ''/builds?filter[app]={}&sort=-uploadedDate&limit=5'' [JStr ''6450000000''], JNull)] \<and>
     slept w1 = slept boot"
    using assms prepare_ok [OF token_ok_good_config good_config_set parse_live,
          of "''com.example.app''" e boot "''6450000000''" "''Demo''" "''build-1''" "''30''"]
    by (simp add: live_args_def boot_def opt_json_def)
  then show ?thesis by (auto simp: opt_json_def boot_def mutations_def)
qed

theorem already_submitted_exits_0_witness:
  "first_version (JObj [(''data'', JArr
       [JObj [(''id'', JStr ''version-1''),
              (''attributes'', JObj [(''appStoreState'', JStr ''IN_REVIEW'')])]])])
     = Some (JStr ''version-1'', JStr ''IN_REVIEW'') \<and>
   ''IN_REVIEW'' \<in> set submitted_states \<and>
   fst (script in_review good_config live_args boot) = 0 \<and>
   mutations (snd (script in_review good_config live_args boot)) = []"
proof -
  let ?r = "JObj [(''data'', JArr
       [JObj [(''id'', JStr ''version-1''),
              (''attributes'', JObj [(''appStoreState'', JStr ''IN_REVIEW'')])]])]"
  obtain w1 where w1: "prepare in_review good_config live_args boot =
       (Val (''1.13.0'', JStr ''30'', JStr ''6450000000'', JStr ''build-1''), w1)"
     "calls w1 = 2"
    using prepare_live [of in_review] by (auto simp: in_review_def)
  let ?w = "log (F ''Looking for version {}...'' [JStr ''1.13.0'']) (log (F [] []) w1)"
  have look: "make_api_request in_review good_config GET
             (F ''/apps/{}/appStoreVersions?filter[platform]=IOS&filter[versionString]={}''
                [JStr ''6450000000'', JStr ''1.13.0'']) JNull 3 ?w
           = (Val ?r, snd (send in_review GET
             (F ''/apps/{}/appStoreVersions?filter[platform]=IOS&filter[versionString]={}''
                [JStr ''6450000000'', JStr ''1.13.0'']) JNull ?w))"
    using make_api_request_ok [OF token_ok_good_config, of in_review ?w 200 NoHeader ?r]
    by (simp add: w1(2) in_review_def version_page_def)
  have fv: "first_version ?r = Some (JStr ''version-1'', JStr ''IN_REVIEW'')"
    by (simp add: first_version_def)
  have mem: "''IN_REVIEW'' \<in> set submitted_states" by (simp add: submitted_states_def)
  from already_submitted_exits_0 [OF w1(1) look fv mem] fv mem show ?thesis
    by (simp add: mutations_def boot_def)
qed

section \<open>Release notes for every localization\<close>

text \<open>The locale code and the identifier of a localization record, when it has both.\<close>

definition localization_fields :: "json \<Rightarrow> (json \<times> json) option" where
  "localization_fields loc =
     (case (obind (py_item loc ''attributes'') (\<lambda>a. py_item a ''locale''),
            py_item loc ''id'') of
        (Val locale_code, Val loc_id) \<Rightarrow> Some (locale_code, loc_id)
      | _ \<Rightarrow> None)"

text \<open>The lines the release-notes stage prints per localization.\<close>

fun is_locale_line :: "fstr \<Rightarrow> bool" where
  "is_locale_line (F template vs) =
     (template = ''Added release notes for {}'' \<or>
      template = ''Failed to add release notes for {}'')"

definition locale_lines :: "world \<Rightarrow> fstr list" where
  "locale_lines w = filter is_locale_line (logged w)"

text \<open>A page with the localizations \<open>en-US\<close> and \<open>de-DE\<close>.\<close>

definition two_locales :: json where
  "two_locales = JObj [(''data'', JArr
     [JObj [(''id'', JStr ''loc-1''), (''attributes'', JObj [(''locale'', JStr ''en-US'')])],
      JObj [(''id'', JStr ''loc-2''), (''attributes'', JObj [(''locale'', JStr ''de-DE'')])]])]"

text \<open>The listing succeeds, the three attempts to update \<open>en-US\<close> are answered with 500,
  and the update of \<open>de-DE\<close> succeeds.\<close>

definition partial_failure :: env where
  "partial_failure =
     \<lparr>net = (\<lambda>n. if n = 0 then Response 200 NoHeader (JsonBody two_locales)
                 else if n \<le> 3 then server_error
                 else Response 200 NoHeader (JsonBody two_locales)),
      latency = (\<lambda>n. 0), project = NoProjectFile\<rparr>"

lemma partial_failure_listing:
  "make_api_request partial_failure good_config GET
           (F ''/appStoreVersions/{}/appStoreVersionLocalizations'' [JStr ''version-1'']) JNull 3
           (log (F ''Adding release notes for all localizations...'' []) boot)
     = (Val two_locales,
        snd (send partial_failure GET
           (F ''/appStoreVersions/{}/appStoreVersionLocalizations'' [JStr ''version-1'']) JNull
           (log (F ''Adding release notes for all localizations...'' []) boot)))"
  using make_api_request_ok [OF token_ok_good_config, of partial_failure
      "log (F ''Adding release notes for all localizations...'' []) boot" 200 NoHeader two_locales]
  by (simp add: partial_failure_def boot_def)

text \<open>A failed update that the request helper reports as \<open>None\<close> is printed for its
  localization and the loop goes on to the next one: here \<open>en-US\<close> fails after three
  attempts, \<open>de-DE\<close> is updated, and the stage returns \<open>True\<close>.\<close>

lemma partial_failure_run:
  "fst (add_release_notes_all_locales partial_failure good_config (JStr ''version-1'')
          RELEASE_NOTES False boot) = Val True \<and>
   locale_lines (snd (add_release_notes_all_locales partial_failure good_config
          (JStr ''version-1'') RELEASE_NOTES False boot)) =
     [F ''Failed to add release notes for {}'' [JStr ''en-US''],
      F ''Added release notes for {}'' [JStr ''de-DE'']] \<and>
   map (\<lambda>r. (fst r, fst (snd r)))
     (sent (snd (add_release_notes_all_locales partial_failure good_config
          (JStr ''version-1'') RELEASE_NOTES False boot))) =
     [(GET, F ''/appStoreVersions/{}/appStoreVersionLocalizations'' [JStr ''version-1'']),
      (PATCH, F ''/appStoreVersionLocalizations/{}'' [JStr ''loc-1'']),
      (PATCH, F ''/appStoreVersionLocalizations/{}'' [JStr ''loc-1'']),
      (PATCH, F ''/appStoreVersionLocalizations/{}'' [JStr ''loc-1'']),
      (PATCH, F ''/appStoreVersionLocalizations/{}'' [JStr ''loc-2''])]"
  by (simp add: add_release_notes_all_locales_def partial_failure_listing two_locales_def
      update_localization_def run_simps upto3 good_config_def partial_failure_def
      server_error_def boot_def locale_lines_def)

section \<open>Exit status\<close>

lemma versions_create_fails:
  assumes "make_api_request e cfg GET
             (F ''/apps/{}/appStoreVersions?filter[platform]=IOS&filter[versionString]={}''
                [app_id, JStr vp]) JNull 3
             (log (F ''Looking for version {}...'' [JStr vp]) w) = (Val response, w2)"
    and "truthy response"
    and "py_get response ''data'' JNull = Val d" "\<not> truthy d"
    and "make_api_request e cfg POST (F ''/appStoreVersions'' [])
                    (JObj [(''data'', JObj
                       [(''type'', JStr ''appStoreVersions''),
                        (''attributes'', JObj [(''platform'', JStr ''IOS''),
                                               (''versionString'', JStr vp)]),
                        (''relationships'', JObj [(''app'', JObj [(''data'',
                           JObj [(''type'', JStr ''apps''), (''id'', app_id)])])])])]) 3
                    (log (F ''Creating new version {}...'' [JStr vp]) w2) = (Val r, w3)"
    and "\<not> truthy r"
  shows "get_or_create_version e cfg app_id vp False w = (Val JNull, w3)"
  using assms by (simp add: get_or_create_version_def)

text \<open>The app and a valid build are found, no version exists yet, and the server answers
  the creation of the version with 500 every time.\<close>

definition creation_fails :: env where
  "creation_fails = \<lparr>net = (\<lambda>n. if n = 0 then app_page ''6450000000'' ''Demo''
                                else if n = 1 then build_page ''build-1'' ''30'' ''VALID''
                                else if n = 2 then empty_page
                                else server_error),
                      latency = (\<lambda>n. 0), project = NoProjectFile\<rparr>"

lemma failing_server_error: "failing server_error"
  by (simp add: server_error_def)

text \<open>
  C9 fails on the code at one of the stage failures it lists: when no version exists and
  the three attempts to create it are answered with 500, \<open>get_or_create_version\<close>
  returns \<open>None\<close>, which \<open>main\<close> takes for "already submitted": after three POST
  requests to \<open>/appStoreVersions\<close> the process exits with status 0, not 1.
\<close>

theorem creation_failure_exits_0:
  "fst (script creation_fails good_config live_args boot) = 0 \<and>
   map (\<lambda>r. (fst r, fst (snd r))) (mutations (snd (script creation_fails good_config live_args boot)))
     = [(POST, F ''/appStoreVersions'' []), (POST, F ''/appStoreVersions'' []),
        (POST, F ''/appStoreVersions'' [])]"
proof -
  let ?e = creation_fails and ?c = good_config
  obtain w1 where w1: "prepare ?e ?c live_args boot =
       (Val (''1.13.0'', JStr ''30'', JStr ''6450000000'', JStr ''build-1''), w1)"
     "calls w1 = 2" "mutations w1 = []"
    using prepare_live [of ?e] by (auto simp: creation_fails_def)
  let ?w = "log (F ''Looking for version {}...'' [JStr ''1.13.0'']) (log (F [] []) w1)"
  let ?ep = "F ''/apps/{}/appStoreVersions?filter[platform]=IOS&filter[versionString]={}''
                [JStr ''6450000000'', JStr ''1.13.0'']"
  let ?r = "JObj [(''data'', JArr [])]"
  have look: "make_api_request ?e ?c GET ?ep JNull 3 ?w = (Val ?r, snd (send ?e GET ?ep JNull ?w))"
    using make_api_request_ok [OF token_ok_good_config, of ?e ?w 200 NoHeader ?r]
    by (simp add: w1(2) creation_fails_def empty_page_def)
  let ?w2 = "log (F ''Creating new version {}...'' [JStr ''1.13.0'']) (snd (send ?e GET ?ep JNull ?w))"
  let ?d = "JObj [(''data'', JObj
                       [(''type'', JStr ''appStoreVersions''),
                        (''attributes'', JObj [(''platform'', JStr ''IOS''),
                                               (''versionString'', JStr ''1.13.0'')]),
                        (''relationships'', JObj [(''app'', JObj [(''data'',
                           JObj [(''type'', JStr ''apps''), (''id'', JStr ''6450000000'')])])])])]"
  have c2: "calls ?w2 = 3" by (simp add: w1(2))
  have f: "failing (net ?e (calls ?w2))" "failing (net ?e (calls ?w2 + 1))"
     "failing (net ?e (calls ?w2 + 2))"
    unfolding c2 by (simp_all add: creation_fails_def failing_server_error)
  from three_failing_replies [OF token_ok_good_config f, of POST "F ''/appStoreVersions'' []" ?d]
  obtain w3 where w3:
    "make_api_request ?e ?c POST (F ''/appStoreVersions'' []) ?d 3 ?w2 = (Val JNull, w3)"
    "sent w3 = sent ?w2 @ replicate 3 (POST, F ''/appStoreVersions'' [], ?d)"
    by auto
  have g: "get_or_create_version ?e ?c (JStr ''6450000000'') ''1.13.0'' False (log (F [] []) w1)
      = (Val JNull, w3)"
  proof (rule versions_create_fails [OF look _ _ _ w3(1)])
    show "truthy ?r" by simp
    show "py_get ?r ''data'' JNull = Val (JArr [])" by simp
    show "\<not> truthy (JArr [])" by simp
    show "\<not> truthy JNull" by simp
  qed
  have "release ?e ?c live_args ''1.13.0'' (JStr ''30'') (JStr ''6450000000'') (JStr ''build-1'') w1
     = (Exit 0, log (F ''Version may already be submitted'' []) w3)"
    using release_nothing_to_do [of ?e ?c "JStr ''6450000000''" "''1.13.0''" live_args w1 JNull w3]
      g by (simp add: live_args_def)
  then have s: "script ?e ?c live_args boot =
      (0, log (F ''Version may already be submitted'' []) w3)"
    using main_of_prepare [OF w1(1)] script_of_main(1) [of ?e ?c live_args boot 0] by simp
  have "mutations w3 = replicate 3 (POST, F ''/appStoreVersions'' [], ?d)"
    using w3(2) w1(3) by (simp add: mutations_def)
  with s show ?thesis by (simp add: numeral_3_eq_3)
qed

lemma release_reaches_notes:
  assumes "get_or_create_version e cfg app_id vp (arg_dry_run a) (log (F [] []) w1)
             = (Val version_id, w2)" "truthy version_id"
    and "link_build_to_version e cfg version_id build_id (arg_dry_run a) (log (F [] []) w2)
             = (Val True, w3)"
  shows "release e cfg a vp bn app_id build_id w1 =
     andThen (add_release_notes_all_locales e cfg version_id RELEASE_NOTES (arg_dry_run a)
                (log (F [] []) w3)) (\<lambda>noted w.
     if \<not> noted then (Exit 1, w)
     else
     andThen (submit_for_review e cfg version_id app_id (arg_dry_run a)
                (log (F [] []) w)) (\<lambda>submission_success w.
     (Val (), summary (arg_dry_run a) submission_success vp bn w)))"
  using assms by (simp add: release_def)

lemma no_localizations:
  assumes "make_api_request e cfg GET
           (F ''/appStoreVersions/{}/appStoreVersionLocalizations'' [version_id]) JNull 3
           (log (F ''Adding release notes for all localizations...'' []) w) = (Val response, w1)"
    and "truthy response"
    and "py_get response ''data'' (JArr []) = Val (JArr [])"
  shows "add_release_notes_all_locales e cfg version_id rn False w =
           (Val False, log (F ''No localizations found'' []) w1)"
  using assms by (simp add: add_release_notes_all_locales_def)

lemma submission_falls_back_and_fails:
  assumes "make_api_request e cfg POST (F ''/reviewSubmissions'' [])
                   (JObj [(''data'', JObj
                      [(''type'', JStr ''reviewSubmissions''),
                       (''relationships'', JObj [(''app'', JObj [(''data'',
                          JObj [(''type'', JStr ''apps''), (''id'', app_id)])])])])]) 3
                   (log (F ''Creating review submission...'' [])
                   (log (F ''Submitting for review...'' []) w)) = (Val r1, w1)"
    and "\<not> truthy r1"
    and "make_api_request e cfg POST (F ''/appStoreVersionSubmissions'' [])
                (JObj [(''data'', JObj
                   [(''type'', JStr ''appStoreVersionSubmissions''),
                    (''relationships'', JObj [(''appStoreVersion'', JObj [(''data'',
                       JObj [(''type'', JStr ''appStoreVersions''), (''id'', version_id)])])])])])
                3 (log (F ''Trying legacy submission endpoint...'' []) w1) = (Val r2, w2)"
    and "\<not> truthy r2"
  shows "submit_for_review e cfg version_id app_id False w =
       (Val False,
        log (F ''Please check App Store Connect and submit manually'' [])
       (log (F ''Submission failed - may require manual action'' []) w2))"
  using assms by (simp add: submit_for_review_def submit_for_review_legacy_def)

text \<open>
  C10: in a run that has found or created the version and linked the build, (1) a listing
  of the localizations that succeeds with an empty list makes
  \<open>add_release_notes_all_locales\<close> return \<open>False\<close> without any update having been
  tried, and the process exits with status 1; (2) when the release notes are in place and
  \<open>submit_for_review\<close> returns \<open>False\<close>, \<open>main\<close> still prints the summary and returns,
  so the process exits with status 0; (3) \<open>submit_for_review\<close> returns \<open>False\<close> when
  the creation of the review submission fails and the legacy endpoint fails after it.
\<close>

theorem no_localizations_exit_1_failed_review_exit_0:
  assumes "prepare e cfg a w = (Val (vp, bn, app_id, build_id), w1)"
    and "\<not> arg_dry_run a"
    and "get_or_create_version e cfg app_id vp False (log (F [] []) w1) = (Val version_id, w2)"
    and "truthy version_id"
    and "link_build_to_version e cfg version_id build_id False (log (F [] []) w2) = (Val True, w3)"
  shows
   "(make_api_request e cfg GET
           (F ''/appStoreVersions/{}/appStoreVersionLocalizations'' [version_id]) JNull 3
           (log (F ''Adding release notes for all localizations...'' []) (log (F [] []) w3))
        = (Val response, w4) \<and>
     truthy response \<and> py_get response ''data'' (JArr []) = Val (JArr [])
     \<longrightarrow>
       add_release_notes_all_locales e cfg version_id RELEASE_NOTES False (log (F [] []) w3)
         = (Val False, log (F ''No localizations found'' []) w4) \<and>
       script e cfg a w = (1, log (F ''No localizations found'' []) w4)) \<and>
    (add_release_notes_all_locales e cfg version_id RELEASE_NOTES False (log (F [] []) w3)
        = (Val True, w5) \<and>
     submit_for_review e cfg version_id app_id False (log (F [] []) w5) = (Val False, w6)
     \<longrightarrow>
       main e cfg a w = (Val (), summary False False vp bn w6) \<and>
       script e cfg a w = (0, summary False False vp bn w6)) \<and>
    (make_api_request e cfg POST (F ''/reviewSubmissions'' [])
                   (JObj [(''data'', JObj
                      [(''type'', JStr ''reviewSubmissions''),
                       (''relationships'', JObj [(''app'', JObj [(''data'',
                          JObj [(''type'', JStr ''apps''), (''id'', app_id)])])])])]) 3
                   (log (F ''Creating review submission...'' [])
                   (log (F ''Submitting for review...'' []) (log (F [] []) w5))) = (Val r1, w7) \<and>
     \<not> truthy r1 \<and>
     make_api_request e cfg POST (F ''/appStoreVersionSubmissions'' [])
                (JObj [(''data'', JObj
                   [(''type'', JStr ''appStoreVersionSubmissions''),
                    (''relationships'', JObj [(''appStoreVersion'', JObj [(''data'',
                       JObj [(''type'', JStr ''appStoreVersions''), (''id'', version_id)])])])])])
                3 (log (F ''Trying legacy submission endpoint...'' []) w7) = (Val r2, w8) \<and>
     \<not> truthy r2
     \<longrightarrow>
       fst (submit_for_review e cfg version_id app_id False (log (F [] []) w5)) = Val False)"
proof -
  have m: "main e cfg a w = andThen (add_release_notes_all_locales e cfg version_id RELEASE_NOTES
                (arg_dry_run a) (log (F [] []) w3)) (\<lambda>noted w.
     if \<not> noted then (Exit 1, w)
     else
     andThen (submit_for_review e cfg version_id app_id (arg_dry_run a)
                (log (F [] []) w)) (\<lambda>submission_success w.
     (Val (), summary (arg_dry_run a) submission_success vp bn w)))"
    using main_of_prepare [OF assms(1)] release_reaches_notes [of e cfg app_id vp a w1 version_id
        w2 build_id w3 bn] assms(2-5)
    by simp
  show ?thesis
  proof (intro conjI impI)
    assume h: "make_api_request e cfg GET
           (F ''/appStoreVersions/{}/appStoreVersionLocalizations'' [version_id]) JNull 3
           (log (F ''Adding release notes for all localizations...'' []) (log (F [] []) w3))
        = (Val response, w4) \<and>
     truthy response \<and> py_get response ''data'' (JArr []) = Val (JArr [])"
    then have n: "add_release_notes_all_locales e cfg version_id RELEASE_NOTES False
         (log (F [] []) w3) = (Val False, log (F ''No localizations found'' []) w4)"
      by (intro no_localizations [of e cfg version_id _ response]) simp_all
    then show "add_release_notes_all_locales e cfg version_id RELEASE_NOTES False
         (log (F [] []) w3) = (Val False, log (F ''No localizations found'' []) w4)" .
    from n m assms(2) have "main e cfg a w = (Exit 1, log (F ''No localizations found'' []) w4)"
      by simp
    then show "script e cfg a w = (1, log (F ''No localizations found'' []) w4)"
      by (rule script_of_main(1))
  next
    assume h: "add_release_notes_all_locales e cfg version_id RELEASE_NOTES False
         (log (F [] []) w3) = (Val True, w5) \<and>
       submit_for_review e cfg version_id app_id False (log (F [] []) w5) = (Val False, w6)"
    with m assms(2) show mm: "main e cfg a w = (Val (), summary False False vp bn w6)" by simp
    then show "script e cfg a w = (0, summary False False vp bn w6)"
      by (rule script_of_main(2))
  next
    assume "make_api_request e cfg POST (F ''/reviewSubmissions'' [])
                   (JObj [(''data'', JObj
                      [(''type'', JStr ''reviewSubmissions''),
                       (''relationships'', JObj [(''app'', JObj [(''data'',
                          JObj [(''type'', JStr ''apps''), (''id'', app_id)])])])])]) 3
                   (log (F ''Creating review submission...'' [])
                   (log (F ''Submitting for review...'' []) (log (F [] []) w5))) = (Val r1, w7) \<and>
     \<not> truthy r1 \<and>
     make_api_request e cfg POST (F ''/appStoreVersionSubmissions'' [])
                (JObj [(''data'', JObj
                   [(''type'', JStr ''appStoreVersionSubmissions''),
                    (''relationships'', JObj [(''appStoreVersion'', JObj [(''data'',
                       JObj [(''type'', JStr ''appStoreVersions''), (''id'', version_id)])])])])])
                3 (log (F ''Trying legacy submission endpoint...'' []) w7) = (Val r2, w8) \<and>
     \<not> truthy r2"
    then show "fst (submit_for_review e cfg version_id app_id False (log (F [] []) w5)) = Val False"
      using submission_falls_back_and_fails [of e cfg app_id "log (F [] []) w5" r1 w7 version_id r2 w8]
      by simp
  qed
qed

lemma version_found:
  assumes "token_ok cfg" "net e (calls w) = version_page vid st" "st \<notin> set submitted_states"
  shows "\<exists>w1. get_or_create_version e cfg app_id vp dr w = (Val (JStr vid), w1) \<and>
     calls w1 = Suc (calls w) \<and> mutations w1 = mutations w"
proof -
  let ?ep = "F ''/apps/{}/appStoreVersions?filter[platform]=IOS&filter[versionString]={}''
                [app_id, JStr vp]"
  let ?w = "log (F ''Looking for version {}...'' [JStr vp]) w"
  let ?r = "JObj [(''data'', JArr
       [JObj [(''id'', JStr vid),
              (''attributes'', JObj [(''appStoreState'', JStr st)])]])]"
  have look: "make_api_request e cfg GET ?ep JNull 3 ?w = (Val ?r, snd (send e GET ?ep JNull ?w))"
    using make_api_request_ok [OF assms(1), of e ?w 200 NoHeader ?r] assms(2)
    by (simp add: version_page_def)
  have fv: "first_version ?r = Some (JStr vid, JStr st)" by (simp add: first_version_def)
  have "\<not> list_ex (py_eq (JStr st)) (map JStr submitted_states)"
    using assms(3) by (auto simp: submitted_states_def)
  with versions_existing [OF look fv, of dr]
  have "get_or_create_version e cfg app_id vp dr w =
      (Val (JStr vid),
       log (F ''Found existing version: {} (State: {})'' [JStr vp, JStr st])
         (snd (send e GET ?ep JNull ?w)))"
    by simp
  then show ?thesis by simp
qed

lemma link_ok:
  assumes "token_ok cfg" "net e (calls w) = Response s h (JsonBody j)" "s < 400" "truthy j"
  shows "\<exists>w1. link_build_to_version e cfg vid bid False w = (Val True, w1) \<and>
     calls w1 = Suc (calls w) \<and>
     map (\<lambda>r. (fst r, fst (snd r))) (mutations w1) =
       map (\<lambda>r. (fst r, fst (snd r))) (mutations w) @ [(PATCH, F ''/appStoreVersions/{}'' [vid])]"
proof -
  let ?d = "JObj [(''data'', JObj
                      [(''type'', JStr ''appStoreVersions''),
                       (''id'', vid),
                       (''relationships'', JObj [(''build'', JObj [(''data'',
                          JObj [(''type'', JStr ''builds''), (''id'', bid)])])])])]"
  let ?w = "log (F ''Linking build to version...'' []) w"
  have "make_api_request e cfg PATCH (F ''/appStoreVersions/{}'' [vid]) ?d 3 ?w
     = (Val j, snd (send e PATCH (F ''/appStoreVersions/{}'' [vid]) ?d ?w))"
    using make_api_request_ok [OF assms(1), of e ?w s h j] assms(2,3) by simp
  with assms(4) show ?thesis by (simp add: link_build_to_version_def mutations_def send_def)
qed

lemma one_locale_ok:
  assumes "token_ok cfg"
    and "net e (calls w) = Response 200 NoHeader (JsonBody (JObj [(''data'', JArr [loc])]))"
    and "localization_fields loc = Some (code, lid)"
    and "net e (Suc (calls w)) = Response s h (JsonBody j)" "s < 400" "truthy j"
  shows "\<exists>w1. add_release_notes_all_locales e cfg vid rn False w = (Val True, w1) \<and>
     calls w1 = calls w + 2"
proof -
  let ?ep = "F ''/appStoreVersions/{}/appStoreVersionLocalizations'' [vid]"
  let ?w = "log (F ''Adding release notes for all localizations...'' []) w"
  let ?r = "JObj [(''data'', JArr [loc])]"
  let ?w1 = "snd (send e GET ?ep JNull ?w)"
  have look: "make_api_request e cfg GET ?ep JNull 3 ?w = (Val ?r, ?w1)"
    using make_api_request_ok [OF assms(1), of e ?w 200 NoHeader ?r] assms(2) by simp
  from assms(3) have g: "obind (py_item loc ''attributes'') (\<lambda>a. py_item a ''locale'') = Val code"
      "py_item loc ''id'' = Val lid"
    by (auto simp: localization_fields_def split: outcome.splits)
  let ?d = "JObj [(''data'', JObj
         [(''type'', JStr ''appStoreVersionLocalizations''),
          (''id'', lid),
          (''attributes'', JObj [(''whatsNew'', JStr rn)])])]"
  let ?pe = "F ''/appStoreVersionLocalizations/{}'' [lid]"
  have patch: "make_api_request e cfg PATCH ?pe ?d 3 ?w1 = (Val j, snd (send e PATCH ?pe ?d ?w1))"
    using make_api_request_ok [OF assms(1), of e ?w1 s h j] assms(4,5) by simp
  have "update_localization e cfg rn loc ?w1 =
      (Val True, log (F ''Added release notes for {}'' [code]) (snd (send e PATCH ?pe ?d ?w1)))"
    using g patch assms(6) by (simp add: update_localization_def)
  then have "add_release_notes_all_locales e cfg vid rn False w =
      (Val True, log (F ''Release notes added to all {} localizations'' [JNum 1])
         (log (F ''Added release notes for {}'' [code]) (snd (send e PATCH ?pe ?d ?w1))))"
    using look by (simp add: add_release_notes_all_locales_def)
  then show ?thesis by simp
qed

text \<open>Version 1.13.0 exists and is not submitted, the build is linked, and the version has
  no localization.\<close>

definition no_locales :: env where
  "no_locales = \<lparr>net = (\<lambda>n. if n = 0 then app_page ''6450000000'' ''Demo''
                            else if n = 1 then build_page ''build-1'' ''30'' ''VALID''
                            else if n = 2 then version_page ''version-1'' ''PREPARE_FOR_SUBMISSION''
                            else if n = 3 then version_page ''version-1'' ''PREPARE_FOR_SUBMISSION''
                            else if n = 4 then empty_page
                            else server_error),
                  latency = (\<lambda>n. 0), project = NoProjectFile\<rparr>"

text \<open>The same run with one localization, whose update succeeds; every request of the
  review submission is answered with 500.\<close>

definition review_fails :: env where
  "review_fails = \<lparr>net = (\<lambda>n. if n = 0 then app_page ''6450000000'' ''Demo''
                            else if n = 1 then build_page ''build-1'' ''30'' ''VALID''
                            else if n = 2 then version_page ''version-1'' ''PREPARE_FOR_SUBMISSION''
                            else if n = 3 then version_page ''version-1'' ''PREPARE_FOR_SUBMISSION''
                            else if n = 4 then Response 200 NoHeader (JsonBody (JObj [(''data'',
                               JArr [JObj [(''id'', JStr ''loc-1''),
                                  (''attributes'', JObj [(''locale'', JStr ''en-US'')])]])]))
                            else if n = 5 then version_page ''version-1'' ''PREPARE_FOR_SUBMISSION''
                            else server_error),
                  latency = (\<lambda>n. 0), project = NoProjectFile\<rparr>"

lemma not_submitted: "''PREPARE_FOR_SUBMISSION'' \<notin> set submitted_states"
  by (simp add: submitted_states_def)

theorem no_localizations_exit_1_failed_review_exit_0_witness:
  "fst (script no_locales good_config live_args boot) = 1 \<and>
   fst (script review_fails good_config live_args boot) = 0"
proof -
  let ?c = good_config
  let ?app = "JStr ''6450000000''" and ?ver = "JStr ''version-1''" and ?b = "JStr ''build-1''"
  have nd: "\<not> arg_dry_run live_args" by (simp add: live_args_def)
  have tv: "truthy ?ver" by simp
  have a: "fst (script no_locales ?c live_args boot) = 1"
  proof -
    let ?e = no_locales
    obtain w1 where w1: "prepare ?e ?c live_args boot = (Val (''1.13.0'', JStr ''30'', ?app, ?b), w1)"
       "calls w1 = 2"
      using prepare_live [of ?e] by (auto simp: no_locales_def)
    obtain w2 where w2: "get_or_create_version ?e ?c ?app ''1.13.0'' False (log (F [] []) w1)
         = (Val ?ver, w2)" "calls w2 = 3"
      using version_found [OF token_ok_good_config _ not_submitted,
          of ?e "log (F [] []) w1" "''version-1''" ?app "''1.13.0''" False]
      by (auto simp: w1(2) no_locales_def)
    obtain w3 where w3: "link_build_to_version ?e ?c ?ver ?b False (log (F [] []) w2)
         = (Val True, w3)" "calls w3 = 4"
      using link_ok [OF token_ok_good_config, of ?e "log (F [] []) w2" 200 NoHeader _ ?ver ?b]
      by (auto simp: w2(2) no_locales_def version_page_def)
    let ?w = "log (F ''Adding release notes for all localizations...'' []) (log (F [] []) w3)"
    let ?ep = "F ''/appStoreVersions/{}/appStoreVersionLocalizations'' [?ver]"
    let ?r = "JObj [(''data'', JArr [])]"
    have look: "make_api_request ?e ?c GET ?ep JNull 3 ?w = (Val ?r, snd (send ?e GET ?ep JNull ?w))"
      using make_api_request_ok [OF token_ok_good_config, of ?e ?w 200 NoHeader ?r]
      by (simp add: w3(2) no_locales_def empty_page_def)
    have h: "make_api_request ?e ?c GET ?ep JNull 3 ?w = (Val ?r, snd (send ?e GET ?ep JNull ?w)) \<and>
       truthy ?r \<and> py_get ?r ''data'' (JArr []) = Val (JArr [])"
      using look by simp
    from no_localizations_exit_1_failed_review_exit_0 [OF w1(1) nd w2(1) tv w3(1), THEN conjunct1, rule_format, OF h]
    show ?thesis by simp
  qed
  have b: "fst (script review_fails ?c live_args boot) = 0"
  proof -
    let ?e = review_fails
    obtain w1 where w1: "prepare ?e ?c live_args boot = (Val (''1.13.0'', JStr ''30'', ?app, ?b), w1)"
       "calls w1 = 2"
      using prepare_live [of ?e] by (auto simp: review_fails_def)
    obtain w2 where w2: "get_or_create_version ?e ?c ?app ''1.13.0'' False (log (F [] []) w1)
         = (Val ?ver, w2)" "calls w2 = 3"
      using version_found [OF token_ok_good_config _ not_submitted,
          of ?e "log (F [] []) w1" "''version-1''" ?app "''1.13.0''" False]
      by (auto simp: w1(2) review_fails_def)
    obtain w3 where w3: "link_build_to_version ?e ?c ?ver ?b False (log (F [] []) w2)
         = (Val True, w3)" "calls w3 = 4"
      using link_ok [OF token_ok_good_config, of ?e "log (F [] []) w2" 200 NoHeader _ ?ver ?b]
      by (auto simp: w2(2) review_fails_def version_page_def)
    let ?loc = "JObj [(''id'', JStr ''loc-1''), (''attributes'', JObj [(''locale'', JStr ''en-US'')])]"
    have lf: "localization_fields ?loc = Some (JStr ''en-US'', JStr ''loc-1'')"
      by (simp add: localization_fields_def)
    obtain w5 where w5: "add_release_notes_all_locales ?e ?c ?ver RELEASE_NOTES False
         (log (F [] []) w3) = (Val True, w5)" "calls w5 = 6"
      using one_locale_ok [OF token_ok_good_config _ lf, of ?e "log (F [] []) w3" 200 NoHeader _
          ?ver RELEASE_NOTES]
      by (auto simp: w3(2) review_fails_def version_page_def)
    let ?d1 = "JObj [(''data'', JObj
                      [(''type'', JStr ''reviewSubmissions''),
                       (''relationships'', JObj [(''app'', JObj [(''data'',
                          JObj [(''type'', JStr ''apps''), (''id'', ?app)])])])])]"
    let ?wa = "log (F ''Creating review submission...'' [])
                   (log (F ''Submitting for review...'' []) (log (F [] []) w5))"
    have ca: "calls ?wa = 6" by (simp add: w5(2))
    have fa: "failing (net ?e (calls ?wa))" "failing (net ?e (calls ?wa + 1))"
       "failing (net ?e (calls ?wa + 2))"
      unfolding ca by (simp_all add: review_fails_def failing_server_error)
    from three_failing_replies [OF token_ok_good_config fa, of POST "F ''/reviewSubmissions'' []" ?d1]
    obtain w7 where w7:
      "make_api_request ?e ?c POST (F ''/reviewSubmissions'' []) ?d1 3 ?wa = (Val JNull, w7)"
      "calls w7 = 9"
      using ca by auto
    let ?d2 = "JObj [(''data'', JObj
                   [(''type'', JStr ''appStoreVersionSubmissions''),
                    (''relationships'', JObj [(''appStoreVersion'', JObj [(''data'',
                       JObj [(''type'', JStr ''appStoreVersions''), (''id'', ?ver)])])])])]"
    let ?wb = "log (F ''Trying legacy submission endpoint...'' []) w7"
    have cb: "calls ?wb = 9" by (simp add: w7(2))
    have fb: "failing (net ?e (calls ?wb))" "failing (net ?e (calls ?wb + 1))"
       "failing (net ?e (calls ?wb + 2))"
      unfolding cb by (simp_all add: review_fails_def failing_server_error)
    from three_failing_replies [OF token_ok_good_config fb, of POST
        "F ''/appStoreVersionSubmissions'' []" ?d2]
    obtain w8 where w8:
      "make_api_request ?e ?c POST (F ''/appStoreVersionSubmissions'' []) ?d2 3 ?wb = (Val JNull, w8)"
      by auto
    have h3: "make_api_request ?e ?c POST (F ''/reviewSubmissions'' []) ?d1 3 ?wa = (Val JNull, w7) \<and>
       \<not> truthy JNull \<and>
       make_api_request ?e ?c POST (F ''/appStoreVersionSubmissions'' []) ?d2 3 ?wb = (Val JNull, w8) \<and>
       \<not> truthy JNull"
      using w7(1) w8 by simp
    have sub: "fst (submit_for_review ?e ?c ?ver ?app False (log (F [] []) w5)) = Val False"
      using no_localizations_exit_1_failed_review_exit_0 [OF w1(1) nd w2(1) tv w3(1), THEN conjunct2, THEN conjunct2, rule_format, OF h3] .
    obtain w6 where w6: "submit_for_review ?e ?c ?ver ?app False (log (F [] []) w5) = (Val False, w6)"
      using sub by (cases "submit_for_review ?e ?c ?ver ?app False (log (F [] []) w5)") auto
    have h2: "add_release_notes_all_locales ?e ?c ?ver RELEASE_NOTES False (log (F [] []) w3)
        = (Val True, w5) \<and>
       submit_for_review ?e ?c ?ver ?app False (log (F [] []) w5) = (Val False, w6)"
      using w5(1) w6 by simp
    from no_localizations_exit_1_failed_review_exit_0 [OF w1(1) nd w2(1) tv w3(1), THEN conjunct2, THEN conjunct1, rule_format, OF h2]
    show ?thesis by simp
  qed
  from a b show ?thesis by simp
qed

section \<open>An update whose error cannot be read\<close>

text \<open>Version 1.13.0 exists and is not submitted, the build is linked and the version has
  the localizations \<open>en-US\<close> and \<open>de-DE\<close>. The update of \<open>en-US\<close> succeeds; the update
  of \<open>de-DE\<close> is answered with status 500 and a body whose list of errors is empty.\<close>

definition second_aborts :: env where
  "second_aborts = \<lparr>net = (\<lambda>n. if n = 0 then app_page ''6450000000'' ''Demo''
                            else if n = 1 then build_page ''build-1'' ''30'' ''VALID''
                            else if n = 2 then version_page ''version-1'' ''PREPARE_FOR_SUBMISSION''
                            else if n = 3 then version_page ''version-1'' ''PREPARE_FOR_SUBMISSION''
                            else if n = 4 then Response 200 NoHeader (JsonBody two_locales)
                            else if n = 5 then Response 200 NoHeader (JsonBody (JObj [(''data'',
                               JObj [(''id'', JStr ''loc-1''),
                                  (''attributes'', JObj [(''locale'', JStr ''en-US'')])])]))
                            else Response 500 NoHeader (JsonBody (JObj [(''errors'', JArr [])]))),
                  latency = (\<lambda>n. 0), project = NoProjectFile\<rparr>"

lemma second_aborts_stage:
  assumes "calls w = 4"
  shows "\<exists>w1. add_release_notes_all_locales second_aborts good_config (JStr ''version-1'')
            rn False w = (Raise IndexError, w1) \<and>
     logged w1 = logged w @ [F ''Adding release notes for all localizations...'' [],
                             F ''Added release notes for {}'' [JStr ''en-US'']] \<and>
     map (\<lambda>r. (fst r, fst (snd r))) (mutations w1) =
       map (\<lambda>r. (fst r, fst (snd r))) (mutations w) @
         [(PATCH, F ''/appStoreVersionLocalizations/{}'' [JStr ''loc-1'']),
          (PATCH, F ''/appStoreVersionLocalizations/{}'' [JStr ''loc-2''])]"
  using assms
  by (simp add: add_release_notes_all_locales_def two_locales_def update_localization_def
      run_simps upto3 good_config_def second_aborts_def mutations_def)

text \<open>
  C8 fails on the code when the update of a localization is answered with an error whose
  message the request helper cannot read: the helper raises instead of returning
  \<open>None\<close>, the exception leaves the loop over the localizations and \<open>main\<close>, and the
  process exits with status 1. Here \<open>en-US\<close> was updated and the update of \<open>de-DE\<close>
  failed: the stage does not report success, no line is printed for \<open>de-DE\<close> (the last
  lines printed are the one for \<open>en-US\<close> and the unexpected error), and the run is aborted.
\<close>

theorem unreadable_error_aborts_the_run:
  "fst (main second_aborts good_config live_args boot) = Raise IndexError \<and>
   fst (script second_aborts good_config live_args boot) = 1 \<and>
   map (\<lambda>r. (fst r, fst (snd r)))
     (mutations (snd (script second_aborts good_config live_args boot))) =
     [(PATCH, F ''/appStoreVersions/{}'' [JStr ''version-1'']),
      (PATCH, F ''/appStoreVersionLocalizations/{}'' [JStr ''loc-1'']),
      (PATCH, F ''/appStoreVersionLocalizations/{}'' [JStr ''loc-2''])] \<and>
   (let printed = logged (snd (script second_aborts good_config live_args boot))
    in drop (length printed - 4) printed =
         [F ''Adding release notes for all localizations...'' [],
          F ''Added release notes for {}'' [JStr ''en-US''],
          F [] [],
          F ''Unexpected error: {}'' []])"
proof -
  let ?e = second_aborts and ?c = good_config
  let ?app = "JStr ''6450000000''" and ?ver = "JStr ''version-1''" and ?b = "JStr ''build-1''"
  obtain w1 where w1: "prepare ?e ?c live_args boot = (Val (''1.13.0'', JStr ''30'', ?app, ?b), w1)"
     "calls w1 = 2" "mutations w1 = []"
    using prepare_live [of ?e] by (auto simp: second_aborts_def)
  obtain w2 where w2: "get_or_create_version ?e ?c ?app ''1.13.0'' False (log (F [] []) w1)
       = (Val ?ver, w2)" "calls w2 = 3" "mutations w2 = []"
    using version_found [OF token_ok_good_config _ not_submitted,
        of ?e "log (F [] []) w1" "''version-1''" ?app "''1.13.0''" False]
    by (auto simp: w1(2,3) second_aborts_def)
  obtain w3 where w3: "link_build_to_version ?e ?c ?ver ?b False (log (F [] []) w2)
       = (Val True, w3)" "calls w3 = 4"
     "map (\<lambda>r. (fst r, fst (snd r))) (mutations w3) = [(PATCH, F ''/appStoreVersions/{}'' [?ver])]"
    using link_ok [OF token_ok_good_config, of ?e "log (F [] []) w2" 200 NoHeader _ ?ver ?b]
    by (auto simp: w2(2,3) second_aborts_def version_page_def)
  have "calls (log (F [] []) w3) = 4" by (simp add: w3(2))
  from second_aborts_stage [OF this, of RELEASE_NOTES] obtain w4 where w4:
    "add_release_notes_all_locales ?e ?c ?ver RELEASE_NOTES False (log (F [] []) w3)
       = (Raise IndexError, w4)"
    "logged w4 = logged (log (F [] []) w3) @
       [F ''Adding release notes for all localizations...'' [],
        F ''Added release notes for {}'' [JStr ''en-US'']]"
    "map (\<lambda>r. (fst r, fst (snd r))) (mutations w4) =
       map (\<lambda>r. (fst r, fst (snd r))) (mutations (log (F [] []) w3)) @
         [(PATCH, F ''/appStoreVersionLocalizations/{}'' [JStr ''loc-1'']),
          (PATCH, F ''/appStoreVersionLocalizations/{}'' [JStr ''loc-2''])]"
    by blast
  have nd: "arg_dry_run live_args = False" by (simp add: live_args_def)
  have "release ?e ?c live_args ''1.13.0'' (JStr ''30'') ?app ?b w1 = (Raise IndexError, w4)"
    using release_reaches_notes [of ?e ?c ?app "''1.13.0''" live_args w1 ?ver w2 ?b w3 "JStr ''30''"]
      w2(1) w3(1) w4(1) by (simp add: nd)
  then have m: "main ?e ?c live_args boot = (Raise IndexError, w4)"
    using main_of_prepare [OF w1(1)] by simp
  then have s: "script ?e ?c live_args boot =
      (1, log (F ''Unexpected error: {}'' []) (log (F [] []) w4))"
    by (simp add: script_def)
  have l: "logged (snd (script ?e ?c live_args boot)) =
      logged (log (F [] []) w3) @
       [F ''Adding release notes for all localizations...'' [],
        F ''Added release notes for {}'' [JStr ''en-US''], F [] [], F ''Unexpected error: {}'' []]"
    by (simp add: s w4(2))
  show ?thesis
    unfolding Let_def l
    using m s w4(3) w3(3) by simp
qed

section \<open>Dry run\<close>

lemma andThen_Val:
  "andThen m f = (Val y, w1) \<Longrightarrow> \<exists>x w0. m = (Val x, w0) \<and> f x w0 = (Val y, w1)"
  by (cases m; cases "fst m") auto

lemma mutations_versions_dry [simp]:
  "mutations (snd (get_or_create_version e cfg app_id vp True w)) = mutations w"
  unfolding get_or_create_version_def Let_def
  by (intro andThen_mut if_mut) simp_all

lemma mutations_link_dry [simp]:
  "mutations (snd (link_build_to_version e cfg v b True w)) = mutations w"
  by (simp add: link_build_to_version_def)

lemma mutations_notes_dry [simp]:
  "mutations (snd (add_release_notes_all_locales e cfg v rn True w)) = mutations w"
  by (simp add: add_release_notes_all_locales_def)

lemma mutations_submit_dry [simp]:
  "mutations (snd (submit_for_review e cfg v app True w)) = mutations w"
  by (simp add: submit_for_review_def)











section \<open>The build wait and its time limit\<close>

text \<open>The build the loop looks at in a page of builds: the one with the expected build
  number (\<open>None\<close> when there is none), or the first of the page.\<close>

definition target_of :: "json \<Rightarrow> json \<Rightarrow> json outcome" where
  "target_of expected_build_number response =
     (if truthy expected_build_number
      then obind (py_item response ''data'') (\<lambda>d.
           obind (py_iter d) (\<lambda>builds. search_builds builds expected_build_number))
      else obind (py_item response ''data'') py_item0)"

text \<open>The identifier, the processing state and the version label of a build record.\<close>

definition build_fields :: "json \<Rightarrow> (json \<times> json \<times> json) option" where
  "build_fields t =
     (case obind (py_item t ''id'') (\<lambda>build_id.
           obind (py_item t ''attributes'') (\<lambda>a.
           obind (py_get a ''processingState'' (JStr ''UNKNOWN'')) (\<lambda>processing_state.
           obind (py_item t ''attributes'') (\<lambda>a2.
           obind (py_get a2 ''version'' (JStr ''unknown'')) (\<lambda>vers.
           Val (build_id, processing_state, vers)))))) of
        Val x \<Rightarrow> Some x
      | _ \<Rightarrow> None)"

text \<open>A reply that keeps the loop waiting: a page of builds on which the expected build
  is missing, or on which the build looked at is neither VALID nor INVALID.\<close>

definition still_waiting :: "json \<Rightarrow> reply \<Rightarrow> bool" where
  "still_waiting ex r =
     (case r of
        Response s h (JsonBody response) \<Rightarrow>
          s < 400 \<and> no_data response = Val False \<and>
          (case target_of ex response of
             Val t \<Rightarrow>
               if truthy ex \<and> \<not> truthy t then True
               else (case build_fields t of
                       Some (build_id, ps, v) \<Rightarrow> ps \<noteq> JStr ''VALID'' \<and> ps \<noteq> JStr ''INVALID''
                     | None \<Rightarrow> False)
           | _ \<Rightarrow> False)
      | _ \<Rightarrow> False)"

text \<open>The seconds the loop sleeps after such a reply: 30 when it looks at a build whose
  state is not PROCESSING, 5 otherwise.\<close>

definition nap :: "json \<Rightarrow> reply \<Rightarrow> int" where
  "nap ex r =
     (case r of
        Response s h (JsonBody response) \<Rightarrow>
          (case target_of ex response of
             Val t \<Rightarrow>
               if truthy ex \<and> \<not> truthy t then 5
               else (case build_fields t of
                       Some (build_id, ps, v) \<Rightarrow>
                         if truthy t \<and> ps \<noteq> JStr ''PROCESSING'' then 30 else 5
                     | None \<Rightarrow> 5)
           | _ \<Rightarrow> 5)
      | _ \<Rightarrow> 5)"

lemma py_eq_JStr [simp]: "py_eq x (JStr s) \<longleftrightarrow> x = JStr s"
  by (cases x) (auto split: json.splits)

lemma nap_bounds: "5 \<le> nap ex r \<and> nap ex r \<le> 30"
  by (auto simp: nap_def split: reply.splits body.splits outcome.splits option.splits)

lemma check_build_fields:
  assumes "build_fields t = Some (build_id, ps, v)"
  shows "check_build t mx st seen w =
     (let changed = (\<not> py_eq ps (fst seen) \<or> \<not> py_eq v (snd seen));
          w1 = (if changed then log (F ''Build {} - State: {}'' [v, ps]) w else w);
          seen1 = (if changed then (ps, v) else seen)
      in if ps = JStr ''VALID'' then
           (Return (Val build_id), log (F ''Build {} is ready!'' [v]) w1)
         else if ps = JStr ''INVALID'' then
           (Return (Val JNull),
            log (F ''Check App Store Connect for details'' [])
           (log (F ''Build {} processing failed'' [v]) w1))
         else if clock w - st > mx * 60 then
           (Return (Val JNull),
            log (F ''  ./submit_to_app_store.py {}'' [v])
           (log (F ''Build {} is still processing. Run this script again later:'' [v])
           (log (F ''Timeout after {} minutes'' [JNum mx]) w1)))
         else
           (Continue seen1,
            w1\<lparr>clock := clock w + (if truthy t \<and> ps \<noteq> JStr ''PROCESSING'' then 30 else 5),
               slept := slept w @ [if truthy t \<and> ps \<noteq> JStr ''PROCESSING'' then 30 else 5]\<rparr>))"
proof -
  from assms have x: "obind (py_item t ''id'') (\<lambda>build_id.
           obind (py_item t ''attributes'') (\<lambda>a.
           obind (py_get a ''processingState'' (JStr ''UNKNOWN'')) (\<lambda>processing_state.
           obind (py_item t ''attributes'') (\<lambda>a2.
           obind (py_get a2 ''version'' (JStr ''unknown'')) (\<lambda>vers.
           Val (build_id, processing_state, vers)))))) = Val (build_id, ps, v)"
    by (simp add: build_fields_def split: outcome.splits)
  show ?thesis
    unfolding check_build_def x
    by (simp add: Let_def sleep_continue_def sleep_def)
qed

lemma poll_builds_page:
  assumes "token_ok cfg" "net e (calls w) = Response s h (JsonBody response)" "s < 400"
    and "no_data response = Val False" "target_of ex response = Val t"
  shows "poll_builds e cfg app ex mx st seen w =
     (let w1 = snd (send e GET (F ''/builds?filter[app]={}&sort=-uploadedDate&limit=5'' [app])
                   JNull w)
      in if truthy ex \<and> \<not> truthy t then
           (let elapsed = clock w1 - st in
            if elapsed > mx * 60 then
              (Return (Val JNull),
               log (F ''Check App Store Connect to verify the upload succeeded'' [])
              (log (F ''Build {} never appeared in App Store Connect'' [ex])
              (log (F ''Timeout after {} minutes'' [JNum mx]) w1)))
            else
              sleep_continue 5 seen
                (if elapsed mod 30 = 0 \<and> elapsed > 0
                 then log (F ''Still waiting for build {} to appear... ({}s elapsed)''
                            [ex, JNum elapsed]) w1
                 else w1))
         else check_build t mx st seen w1)"
proof -
  have m: "make_api_request e cfg GET
      (F ''/builds?filter[app]={}&sort=-uploadedDate&limit=5'' [app]) JNull 3 w =
      (Val response, snd (send e GET
         (F ''/builds?filter[app]={}&sort=-uploadedDate&limit=5'' [app]) JNull w))"
    using make_api_request_ok [OF assms(1,2,3)] .
  show ?thesis
  proof (cases "truthy ex")
    case True
    with assms(5) have "obind (py_item response ''data'') (\<lambda>d.
           obind (py_iter d) (\<lambda>builds. search_builds builds ex)) = Val t"
      by (simp add: target_of_def)
    with True assms(4) show ?thesis
      by (simp add: poll_builds_def m Let_def)
  next
    case False
    with assms(5) have "obind (py_item response ''data'') py_item0 = Val t"
      by (simp add: target_of_def)
    with False assms(4) show ?thesis
      by (simp add: poll_builds_def m Let_def)
  qed
qed

text \<open>One pass of the loop on a reply that keeps it waiting: the time limit decides.\<close>

lemma still_waiting_cases:
  assumes "still_waiting ex (net e (calls w))"
  obtains s h response t where
    "net e (calls w) = Response s h (JsonBody response)" "s < 400"
    "no_data response = Val False" "target_of ex response = Val t"
    "truthy ex \<and> \<not> truthy t" "nap ex (net e (calls w)) = 5"
  | s h response t b ps v where
    "net e (calls w) = Response s h (JsonBody response)" "s < 400"
    "no_data response = Val False" "target_of ex response = Val t"
    "\<not> (truthy ex \<and> \<not> truthy t)" "build_fields t = Some (b, ps, v)"
    "ps \<noteq> JStr ''VALID''" "ps \<noteq> JStr ''INVALID''"
    "nap ex (net e (calls w)) = (if truthy t \<and> ps \<noteq> JStr ''PROCESSING'' then 30 else 5)"
proof -
  from assms obtain s h response t where
    r: "net e (calls w) = Response s h (JsonBody response)" "s < 400"
       "no_data response = Val False" "target_of ex response = Val t"
    and alt: "(truthy ex \<and> \<not> truthy t) \<or>
       (\<exists>b ps v. build_fields t = Some (b, ps, v) \<and> ps \<noteq> JStr ''VALID'' \<and> ps \<noteq> JStr ''INVALID'')"
    by (auto simp: still_waiting_def split: reply.splits body.splits outcome.splits
        option.splits if_splits)
  show ?thesis
  proof (cases "truthy ex \<and> \<not> truthy t")
    case True
    then have "nap ex (net e (calls w)) = 5" using r by (simp add: nap_def)
    with r True show ?thesis by (rule that(1))
  next
    case False
    with alt obtain b ps v where f: "build_fields t = Some (b, ps, v)"
       "ps \<noteq> JStr ''VALID''" "ps \<noteq> JStr ''INVALID''"
      by blast
    have "nap ex (net e (calls w)) = (if truthy t \<and> ps \<noteq> JStr ''PROCESSING'' then 30 else 5)"
      using r f False by (simp add: nap_def)
    with r False f show ?thesis by (rule that(2))
  qed
qed

lemma poll_timeout:
  assumes "token_ok cfg" "still_waiting ex (net e (calls w))"
    and "mx * 60 < clock w + int (latency e (calls w)) - st"
  shows "\<exists>w1. poll_builds e cfg app ex mx st seen w = (Return (Val JNull), w1) \<and>
     calls w1 = Suc (calls w) \<and>
     clock w1 = clock w + int (latency e (calls w)) \<and> slept w1 = slept w"
  using assms(2)
proof (cases rule: still_waiting_cases)
  case (1 s h response t)
  show ?thesis
    unfolding poll_builds_page [OF assms(1) 1(1-4)] using 1(5) assms(3)
    by (simp add: Let_def)
next
  case (2 s h response t b ps v)
  show ?thesis
    unfolding poll_builds_page [OF assms(1) 2(1-4)] using 2(5,7,8) assms(3)
    by (simp add: Let_def check_build_fields [OF 2(6)])
qed

lemma poll_continue:
  assumes "token_ok cfg" "still_waiting ex (net e (calls w))"
    and "\<not> mx * 60 < clock w + int (latency e (calls w)) - st"
  shows "\<exists>w1 seen1. poll_builds e cfg app ex mx st seen w = (Continue seen1, w1) \<and>
     calls w1 = Suc (calls w) \<and>
     clock w1 = clock w + int (latency e (calls w)) + nap ex (net e (calls w)) \<and>
     slept w1 = slept w @ [nap ex (net e (calls w))]"
  using assms(2)
proof (cases rule: still_waiting_cases)
  case (1 s h response t)
  show ?thesis
    unfolding poll_builds_page [OF assms(1) 1(1-4)] 1(6) using 1(5) assms(3)
    by (simp add: Let_def sleep_continue_def sleep_def)
next
  case (2 s h response t b ps v)
  show ?thesis
    unfolding poll_builds_page [OF assms(1) 2(1-4)] 2(9) using 2(5,7,8) assms(3)
    by (auto simp: Let_def check_build_fields [OF 2(6)] sleep_continue_def sleep_def)
qed

text \<open>The loop on a server that keeps it waiting for ever: it ends at the first poll
  that completes after the time limit.\<close>

lemma wait_loop_times_out:
  assumes "token_ok cfg"
  shows "\<forall>n\<ge>calls w. still_waiting ex (net e n) \<Longrightarrow>
    \<exists>w'. wait_loop e cfg app ex mx st seen w = (Val JNull, w') \<and>
      calls w < calls w' \<and> mx * 60 < clock w' - st \<and>
      slept w' = slept w @ map (\<lambda>i. nap ex (net e i)) [calls w..<calls w' - 1] \<and>
      clock w' = clock w + int (sum_list (map (latency e) [calls w..<calls w'])) +
                 sum_list (map (\<lambda>i. nap ex (net e i)) [calls w..<calls w' - 1]) \<and>
      (calls w' = Suc (calls w) \<or>
       clock w' - int (latency e (calls w' - 1)) - nap ex (net e (calls w' - 2)) - st \<le> mx * 60)"
  using assms
proof (induction e cfg app ex mx st seen w rule: wait_loop.induct)
  case (1 e cfg app ex mx st seen w)
  have sw: "still_waiting ex (net e (calls w))" using "1.prems"(1) by simp
  show ?case
  proof (cases "mx * 60 < clock w + int (latency e (calls w)) - st")
    case True
    from poll_timeout [OF "1.prems"(2) sw True, of app seen] obtain w1 where
      p: "poll_builds e cfg app ex mx st seen w = (Return (Val JNull), w1)"
         "calls w1 = Suc (calls w)" "clock w1 = clock w + int (latency e (calls w))"
         "slept w1 = slept w"
      by blast
    have "wait_loop e cfg app ex mx st seen w = (Val JNull, w1)"
      using p(1) by (rule wait_loop_Return)
    with p True show ?thesis by (intro exI [of _ w1]) simp
  next
    case False
    from poll_continue [OF "1.prems"(2) sw False, of app seen] obtain w1 seen1 where
      p: "poll_builds e cfg app ex mx st seen w = (Continue seen1, w1)"
         "calls w1 = Suc (calls w)"
         "clock w1 = clock w + int (latency e (calls w)) + nap ex (net e (calls w))"
         "slept w1 = slept w @ [nap ex (net e (calls w))]"
      by blast
    have all1: "\<forall>n\<ge>calls w1. still_waiting ex (net e n)"
      using "1.prems"(1) p(2) by simp
    from "1.IH" [OF p(1) [symmetric] refl all1 "1.prems"(2)] obtain w' where
      ih: "wait_loop e cfg app ex mx st seen1 w1 = (Val JNull, w')"
          "calls w1 < calls w'" "mx * 60 < clock w' - st"
          "slept w' = slept w1 @ map (\<lambda>i. nap ex (net e i)) [calls w1..<calls w' - 1]"
          "clock w' = clock w1 + int (sum_list (map (latency e) [calls w1..<calls w'])) +
                 sum_list (map (\<lambda>i. nap ex (net e i)) [calls w1..<calls w' - 1])"
          "calls w' = Suc (calls w1) \<or>
           clock w' - int (latency e (calls w' - 1)) - nap ex (net e (calls w' - 2)) - st \<le> mx * 60"
      by blast
    have res: "wait_loop e cfg app ex mx st seen w = (Val JNull, w')"
      using wait_loop_Continue [OF p(1)] ih(1) by simp
    have lt: "calls w < calls w' - 1" "calls w < calls w'" using ih(2) p(2) by simp_all
    have u1: "[calls w..<calls w' - 1] = calls w # [calls w1..<calls w' - 1]"
      using lt(1) p(2) by (simp add: upt_conv_Cons)
    have u2: "[calls w..<calls w'] = calls w # [calls w1..<calls w']"
      using lt(2) p(2) by (simp add: upt_conv_Cons)
    have sl: "slept w' = slept w @ map (\<lambda>i. nap ex (net e i)) [calls w..<calls w' - 1]"
      unfolding u1 using ih(4) p(4) by simp
    have cl: "clock w' = clock w + int (sum_list (map (latency e) [calls w..<calls w'])) +
                 sum_list (map (\<lambda>i. nap ex (net e i)) [calls w..<calls w' - 1])"
      unfolding u1 u2 using ih(5) p(3) by simp
    have prev: "clock w' - int (latency e (calls w' - 1)) - nap ex (net e (calls w' - 2)) - st
        \<le> mx * 60"
    proof (cases "calls w' = Suc (calls w1)")
      case True
      then have "clock w' = clock w1 + int (latency e (calls w1))"
        using ih(5) by simp
      moreover have "calls w' - 1 = calls w1" "calls w' - 2 = calls w"
        using True p(2) by simp_all
      ultimately show ?thesis using p(3) False by simp
    next
      case False
      with ih(6) show ?thesis by simp
    qed
    from res lt(2) ih(3) sl cl prev show ?thesis by (intro exI [of _ w']) simp
  qed
qed

lemma sum_list_const5:
  "\<forall>i\<in>set xs. f i = (5::int) \<Longrightarrow> sum_list (map f xs) = 5 * int (length xs)"
  by (induction xs) auto

lemma sum_list_zero:
  "\<forall>i. f i = (0::nat) \<Longrightarrow> sum_list (map f xs) = 0"
  by (induction xs) auto

lemma wait_times_out:
  assumes "token_ok cfg" and "\<forall>n\<ge>calls w. still_waiting ex (net e n)" and "0 \<le> mx"
  shows "\<exists>w'. wait_for_build_processing e cfg app ex mx False w = (Val JNull, w') \<and>
     mx * 60 < clock w' - clock w \<and>
     clock w' - clock w \<le> mx * 60 + 30 + int (latency e (calls w' - 1)) \<and>
     ((\<forall>n. latency e n = 0) \<and> (\<forall>n\<ge>calls w. nap ex (net e n) = 5)
        \<longrightarrow> clock w' - clock w = mx * 60 + 5)"
proof -
  let ?w0 = "if truthy ex
         then log (F ''Waiting for build {} to finish processing (max {} min)...'' [ex, JNum mx]) w
         else log (F ''Waiting for latest build to finish processing (max {} min)...'' [JNum mx]) w"
  have w0: "calls ?w0 = calls w" "clock ?w0 = clock w" by simp_all
  have eq: "wait_for_build_processing e cfg app ex mx False w =
     wait_loop e cfg app ex mx (clock ?w0) (JNull, JNull) ?w0"
    by (simp add: wait_for_build_processing_def Let_def)
  have "\<forall>n\<ge>calls ?w0. still_waiting ex (net e n)" using assms(2) w0 by simp
  from wait_loop_times_out [OF assms(1) this, of app mx "clock ?w0" "(JNull, JNull)"]
  obtain w' where
    r: "wait_loop e cfg app ex mx (clock ?w0) (JNull, JNull) ?w0 = (Val JNull, w')"
    and c: "calls ?w0 < calls w'" and late: "mx * 60 < clock w' - clock ?w0"
    and cl: "clock w' = clock ?w0 + int (sum_list (map (latency e) [calls ?w0..<calls w'])) +
                 sum_list (map (\<lambda>i. nap ex (net e i)) [calls ?w0..<calls w' - 1])"
    and prev: "calls w' = Suc (calls ?w0) \<or>
       clock w' - int (latency e (calls w' - 1)) - nap ex (net e (calls w' - 2)) - clock ?w0
         \<le> mx * 60"
    by blast
  have b: "clock w' - clock w \<le> mx * 60 + 30 + int (latency e (calls w' - 1))"
  proof (cases "calls w' = Suc (calls ?w0)")
    case True
    then have "clock w' = clock w + int (latency e (calls w))" using cl w0 by simp
    moreover have "calls w' - 1 = calls w" using True w0 by simp
    ultimately show ?thesis using assms(3) by simp
  next
    case False
    with prev have "clock w' - int (latency e (calls w' - 1)) - nap ex (net e (calls w' - 2))
       - clock w \<le> mx * 60" using w0 by simp
    with nap_bounds [of ex "net e (calls w' - 2)"] show ?thesis by linarith
  qed
  have d: "clock w' - clock w = mx * 60 + 5"
    if z: "(\<forall>n. latency e n = 0) \<and> (\<forall>n\<ge>calls w. nap ex (net e n) = 5)"
  proof -
    have l0: "sum_list (map (latency e) [calls w..<calls w']) = 0"
      using z by (intro sum_list_zero) simp
    have n5: "sum_list (map (\<lambda>i. nap ex (net e i)) [calls w..<calls w' - 1])
        = 5 * int (calls w' - 1 - calls w)"
      using z sum_list_const5 [of "[calls w..<calls w' - 1]" "\<lambda>i. nap ex (net e i)"] by simp
    have e1: "clock w' - clock w = 5 * int (calls w' - 1 - calls w)"
      using cl w0 l0 n5 by simp
    have ne: "calls w' \<noteq> Suc (calls w)"
    proof
      assume "calls w' = Suc (calls w)"
      with e1 have "clock w' - clock w = 0" by simp
      with late w0 assms(3) show False by simp
    qed
    with prev w0 have "clock w' - int (latency e (calls w' - 1)) - nap ex (net e (calls w' - 2))
       - clock w \<le> mx * 60" by simp
    moreover have "nap ex (net e (calls w' - 2)) = 5"
      using z c ne w0 by simp
    moreover have "latency e (calls w' - 1) = 0" using z by simp
    ultimately have up: "clock w' - clock w \<le> mx * 60 + 5" by simp
    have lo: "mx * 60 < clock w' - clock w" using late w0 by simp
    define m where "m = int (calls w' - 1 - calls w)"
    have "mx * 60 < 5 * m" using lo e1 by (simp add: m_def)
    then have "12 * mx < m" by simp
    then have "mx * 60 + 5 \<le> 5 * m" by simp
    with up e1 show ?thesis by (simp add: m_def)
  qed
  from r eq late w0 b d show ?thesis by (intro exI [of _ w']) simp
qed







section \<open>Following a build that was found\<close>

text \<open>The progress lines of the build wait.\<close>

fun is_state_line :: "fstr \<Rightarrow> bool" where
  "is_state_line (F template vs) = (template = ''Build {} - State: {}'')"

definition state_lines :: "world \<Rightarrow> fstr list" where
  "state_lines w = filter is_state_line (logged w)"

lemma state_lines_log:
  "state_lines (log m w) = state_lines w @ (if is_state_line m then [m] else [])"
  by (simp add: state_lines_def)

lemma state_lines_send [simp]: "state_lines (snd (send e m ep d w)) = state_lines w"
  by (simp add: state_lines_def)

lemma state_lines_update [simp]:
  "state_lines (w\<lparr>clock := c, slept := sl\<rparr>) = state_lines w"
  by (simp add: state_lines_def)

lemma build_fields_truthy: "build_fields t = Some x \<Longrightarrow> truthy t"
  by (cases t) (auto simp: build_fields_def split: outcome.splits option.splits)

text \<open>
  C6, amended: in a pass of the loop whose page holds the target build, the function
  returns the build identifier exactly when the state is VALID; it returns \<open>None\<close> when
  the state is INVALID and also when the state is neither and the time limit has passed;
  otherwise it sleeps 5 seconds when the state is PROCESSING (30 seconds for any other
  state) and polls again. The progress line is printed exactly when the state or the
  version label differs from the one printed last.
\<close>

theorem found_build_is_followed:
  assumes "token_ok cfg"
    and "net e (calls w) = Response s h (JsonBody response)" "s < 400"
    and "no_data response = Val False"
    and "target_of ex response = Val t"
    and "build_fields t = Some (build_id, ps, v)"
  shows
   "(let r = poll_builds e cfg app ex mx st seen w;
         same = (py_eq ps (fst seen) \<and> py_eq v (snd seen));
         late = (mx * 60 < clock w + int (latency e (calls w)) - st);
         go_on = (ps \<noteq> JStr ''VALID'' \<and> ps \<noteq> JStr ''INVALID'' \<and> \<not> late);
         pause = (if ps = JStr ''PROCESSING'' then 5 else 30)
     in fst r = (if ps = JStr ''VALID'' then Return (Val build_id)
                 else if ps = JStr ''INVALID'' then Return (Val JNull)
                 else if late then Return (Val JNull)
                 else Continue (if same then seen else (ps, v))) \<and>
        calls (snd r) = Suc (calls w) \<and>
        slept (snd r) = slept w @ (if go_on then [pause] else []) \<and>
        clock (snd r) = clock w + int (latency e (calls w)) + (if go_on then pause else 0) \<and>
        state_lines (snd r) =
          state_lines w @ (if same then [] else [F ''Build {} - State: {}'' [v, ps]]) \<and>
        wait_loop e cfg app ex mx st seen w =
          (case fst r of
             Return x \<Rightarrow> (x, snd r)
           | Continue seen1 \<Rightarrow> wait_loop e cfg app ex mx st seen1 (snd r)))"
proof -
  have tt: "truthy t" using assms(6) by (rule build_fields_truthy)
  have p: "poll_builds e cfg app ex mx st seen w =
      check_build t mx st seen
        (snd (send e GET (F ''/builds?filter[app]={}&sort=-uploadedDate&limit=5'' [app]) JNull w))"
    using poll_builds_page [OF assms(1-5), of app mx st seen] tt by (simp add: Let_def)
  have wl: "wait_loop e cfg app ex mx st seen w =
          (case fst (poll_builds e cfg app ex mx st seen w) of
             Return x \<Rightarrow> (x, snd (poll_builds e cfg app ex mx st seen w))
           | Continue seen1 \<Rightarrow>
               wait_loop e cfg app ex mx st seen1 (snd (poll_builds e cfg app ex mx st seen w)))"
    by (subst wait_loop.simps) (simp split: prod.splits flow.splits)
  show ?thesis
    unfolding Let_def
    apply (intro conjI)
         apply (simp_all only: wl [symmetric])
        apply (simp_all add: p check_build_fields [OF assms(6)] tt Let_def state_lines_log)
    done
qed

lemma build_page_facts:
  "no_data (JObj [(''data'', JArr
       [JObj [(''id'', JStr bid),
              (''attributes'', JObj [(''version'', JStr bv),
                                     (''processingState'', JStr ps)])]])]) = Val False"
  "target_of (JStr bv) (JObj [(''data'', JArr
       [JObj [(''id'', JStr bid),
              (''attributes'', JObj [(''version'', JStr bv),
                                     (''processingState'', JStr ps)])]])]) =
     Val (JObj [(''id'', JStr bid),
              (''attributes'', JObj [(''version'', JStr bv),
                                     (''processingState'', JStr ps)])])"
  "build_fields (JObj [(''id'', JStr bid),
              (''attributes'', JObj [(''version'', JStr bv),
                                     (''processingState'', JStr ps)])]) =
     Some (JStr bid, JStr ps, JStr bv)"
  by (simp_all add: no_data_def target_of_def build_fields_def)

text \<open>Build 30 is PROCESSING at the first two polls and VALID at the third.\<close>

definition valid_at_third_poll :: env where
  "valid_at_third_poll =
     \<lparr>net = (\<lambda>n. if n < 2 then build_page ''build-1'' ''30'' ''PROCESSING''
                 else build_page ''build-1'' ''30'' ''VALID''),
      latency = (\<lambda>n. 0), project = NoProjectFile\<rparr>"

text \<open>Build 30 stays PROCESSING for ever.\<close>

definition stuck :: env where
  "stuck = \<lparr>net = (\<lambda>n. build_page ''build-1'' ''30'' ''PROCESSING''),
             latency = (\<lambda>n. 0), project = NoProjectFile\<rparr>"

theorem found_build_is_followed_witness:
  "fst (wait_for_build_processing valid_at_third_poll good_config (JStr ''6450000000'')
          (JStr ''30'') 60 False boot) = Val (JStr ''build-1'') \<and>
   slept (snd (wait_for_build_processing valid_at_third_poll good_config (JStr ''6450000000'')
          (JStr ''30'') 60 False boot)) = [5, 5] \<and>
   state_lines (snd (wait_for_build_processing valid_at_third_poll good_config
          (JStr ''6450000000'') (JStr ''30'') 60 False boot)) =
     [F ''Build {} - State: {}'' [JStr ''30'', JStr ''PROCESSING''],
      F ''Build {} - State: {}'' [JStr ''30'', JStr ''VALID'']]"
proof -
  let ?e = valid_at_third_poll and ?c = good_config
  let ?app = "JStr ''6450000000''" and ?ex = "JStr ''30''"
  let ?w0 = "log (F ''Waiting for build {} to finish processing (max {} min)...''
      [JStr ''30'', JNum 60]) boot"
  let ?seen = "(JStr ''PROCESSING'', JStr ''30'')"
  have st: "clock ?w0 = 0" by (simp add: boot_def)
  have eq: "wait_for_build_processing ?e ?c ?app ?ex 60 False boot =
      wait_loop ?e ?c ?app ?ex 60 0 (JNull, JNull) ?w0"
    by (simp add: wait_for_build_processing_def Let_def boot_def)
  define w1 where "w1 = snd (poll_builds ?e ?c ?app ?ex 60 0 (JNull, JNull) ?w0)"
  have n0: "net ?e (calls ?w0) = Response 200 NoHeader (JsonBody (JObj [(''data'', JArr
       [JObj [(''id'', JStr ''build-1''),
              (''attributes'', JObj [(''version'', JStr ''30''),
                                     (''processingState'', JStr ''PROCESSING'')])]])]))"
    by (simp add: valid_at_third_poll_def build_page_def boot_def)
  have l0: "latency ?e n = 0" for n by (simp add: valid_at_third_poll_def)
  from found_build_is_followed [OF token_ok_good_config n0 _ build_page_facts, of ?app 60 0 "(JNull, JNull)"]
  have a: "fst (poll_builds ?e ?c ?app ?ex 60 0 (JNull, JNull) ?w0) = Continue ?seen"
    "calls w1 = 1" "slept w1 = [5]" "clock w1 = 5"
    "state_lines w1 = [F ''Build {} - State: {}'' [JStr ''30'', JStr ''PROCESSING'']]"
    "wait_loop ?e ?c ?app ?ex 60 0 (JNull, JNull) ?w0 = wait_loop ?e ?c ?app ?ex 60 0 ?seen w1"
    by (simp_all add: Let_def l0 w1_def boot_def state_lines_def)
  define w2 where "w2 = snd (poll_builds ?e ?c ?app ?ex 60 0 ?seen w1)"
  have n1: "net ?e (calls w1) = Response 200 NoHeader (JsonBody (JObj [(''data'', JArr
       [JObj [(''id'', JStr ''build-1''),
              (''attributes'', JObj [(''version'', JStr ''30''),
                                     (''processingState'', JStr ''PROCESSING'')])]])]))"
    by (simp add: a(2) valid_at_third_poll_def build_page_def)
  from found_build_is_followed [OF token_ok_good_config n1 _ build_page_facts, of ?app 60 0 ?seen]
  have b: "calls w2 = 2" "slept w2 = [5, 5]"
    "state_lines w2 = [F ''Build {} - State: {}'' [JStr ''30'', JStr ''PROCESSING'']]"
    "wait_loop ?e ?c ?app ?ex 60 0 ?seen w1 = wait_loop ?e ?c ?app ?ex 60 0 ?seen w2"
    by (simp_all add: Let_def l0 w2_def a)
  define w3 where "w3 = snd (poll_builds ?e ?c ?app ?ex 60 0 ?seen w2)"
  have n2: "net ?e (calls w2) = Response 200 NoHeader (JsonBody (JObj [(''data'', JArr
       [JObj [(''id'', JStr ''build-1''),
              (''attributes'', JObj [(''version'', JStr ''30''),
                                     (''processingState'', JStr ''VALID'')])]])]))"
    by (simp add: b(1) valid_at_third_poll_def build_page_def)
  from found_build_is_followed [OF token_ok_good_config n2 _ build_page_facts, of ?app 60 0 ?seen]
  have c: "slept w3 = [5, 5]"
    "state_lines w3 = [F ''Build {} - State: {}'' [JStr ''30'', JStr ''PROCESSING''],
      F ''Build {} - State: {}'' [JStr ''30'', JStr ''VALID'']]"
    "wait_loop ?e ?c ?app ?ex 60 0 ?seen w2 = (Val (JStr ''build-1''), w3)"
    by (simp_all add: Let_def l0 w3_def b)
  from eq a(6) b(4) c show ?thesis by simp
qed

lemma stuck_waiting:
  "still_waiting (JStr ''30'') (net stuck n)" "nap (JStr ''30'') (net stuck n) = 5"
  by (simp_all add: still_waiting_def nap_def stuck_def build_page_def build_page_facts)

text \<open>
  C6, as written, fails: \<open>None\<close> is returned not only when the state becomes INVALID. A
  build that stays PROCESSING makes the wait return \<open>None\<close> 3605 seconds after its
  start, without the state ever being INVALID.
\<close>

theorem still_processing_at_the_limit_fails:
  "net stuck 0 = build_page ''build-1'' ''30'' ''PROCESSING'' \<and>
   fst (wait_for_build_processing stuck good_config (JStr ''6450000000'') (JStr ''30'') 60
          False boot) = Val JNull \<and>
   clock (snd (wait_for_build_processing stuck good_config (JStr ''6450000000'') (JStr ''30'') 60
          False boot)) = 3605"
proof -
  have a: "\<forall>n\<ge>calls boot. still_waiting (JStr ''30'') (net stuck n)"
    by (simp add: stuck_waiting)
  have z: "(\<forall>n. latency stuck n = 0) \<and> (\<forall>n\<ge>calls boot. nap (JStr ''30'') (net stuck n) = 5)"
    by (simp add: stuck_waiting) (simp add: stuck_def)
  from wait_times_out [OF token_ok_good_config a, of 60 "JStr ''6450000000''"] obtain w' where
    "wait_for_build_processing stuck good_config (JStr ''6450000000'') (JStr ''30'') 60
          False boot = (Val JNull, w')"
    "(\<forall>n. latency stuck n = 0) \<and> (\<forall>n\<ge>calls boot. nap (JStr ''30'') (net stuck n) = 5)
        \<longrightarrow> clock w' - clock boot = 60 * 60 + 5"
    by auto
  with z show ?thesis by (simp add: boot_def stuck_def)
qed

end
